theory Spec2Isabelle
  imports Complex_Main "HOL-Library.Stream" "HOL-Library.Word"
begin

section \<open>Numbers\<close>

text \<open>
  The program is TypeScript; every quantity is a JavaScript \<^verbatim>\<open>number\<close>. The model reads
  a number as a real: rounding, overflow and signed zero are left out, with two exceptions.
  The division by \<^verbatim>\<open>effectiveDensity\<close> in \<^verbatim>\<open>generateMockWindData\<close> makes a non-finite
  value out of finite ones; it is written out there. And the nearest-sample lookup chooses
  between samples by comparing computed distances, so that rounding and overflow decide which
  sample it returns: there every operation gives the double that JavaScript gives (section
  \<open>The nearest-sample lookup\<close>). A count (of particles, of attempts, of samples) is a
  natural number.
\<close>

text \<open>\<^verbatim>\<open>Math.round\<close>: the nearest integer, a half rounding up.\<close>

definition Math_round :: "real \<Rightarrow> int" where
  "Math_round v = \<lfloor>v + 1 / 2\<rfloor>"

text \<open>\<^verbatim>\<open>Number.MAX_VALUE\<close>, the largest finite double: \<open>(2 - 2\<^sup>-\<^sup>5\<^sup>2) \<sqdot> 2\<^sup>1\<^sup>0\<^sup>2\<^sup>3\<close>.\<close>

definition Number_MAX_VALUE :: real where
  "Number_MAX_VALUE = (2 ^ 53 - 1) * 2 ^ 971"

text \<open>
  \<^verbatim>\<open>Math.random()\<close> reads the next value of a stream that the model passes along: a
  function that draws random numbers takes the stream and returns the rest of it.
\<close>

type_synonym rng = "real stream"

section \<open>The colour ramp (src/data/mockWindData.ts)\<close>

text \<open>
  \<^verbatim>\<open>
  export function getWindColor(speed: number): [number, number, number] {
    if (speed < 0.3) {
      return [30, 144, 255];
    } else if (speed < 0.6) {
      const g = Math.round(200 + speed * 55);
      return [255, g, 0];
    } else {
      const g = Math.round(165 - speed * 165);
      return [255, g, 0];
    }
  }
  \<close>
\<close>

definition getWindColor :: "real \<Rightarrow> int \<times> int \<times> int" where
  "getWindColor speed =
     (if speed < 0.3 then (30, 144, 255)
      else if speed < 0.6 then (let g = Math_round (200 + speed * 55) in (255, g, 0))
      else (let g = Math_round (165 - speed * 165) in (255, g, 0)))"

text \<open>The green channel of a colour triple.\<close>

definition green :: "int \<times> int \<times> int \<Rightarrow> int" where
  "green c = fst (snd c)"

section \<open>The particle-state texture of the shader layer (src/app/WebGLWindLayer.tsx)\<close>

text \<open>
  A texture made by \<^verbatim>\<open>createDataTexture(gl, data, width, height)\<close>: RGBA, unsigned
  bytes, so \<open>data\<close> holds four bytes a texel.
\<close>

record texture =
  tex_width :: nat
  tex_height :: nat
  tex_data :: "8 word list"

definition createDataTexture :: "8 word list \<Rightarrow> nat \<Rightarrow> nat \<Rightarrow> texture" where
  "createDataTexture dat w h = \<lparr>tex_width = w, tex_height = h, tex_data = dat\<rparr>"

text \<open>The fields of the layer that \<^verbatim>\<open>setNumParticles\<close> writes.\<close>

record particle_layer =
  particleStateResolution :: nat
  internal_numParticles :: nat
  particleStateTexture0 :: texture
  particleStateTexture1 :: texture
  particleIndexBuffer :: "nat list"

text \<open>
  \<^verbatim>\<open>
  setNumParticles(numParticles: number) {
    const particleRes = (this.particleStateResolution = Math.ceil(Math.sqrt(numParticles)));
    this._numParticles = particleRes * particleRes;
    const particleState = new Uint8Array(this._numParticles * 4);
    for (let i = 0; i < particleState.length; i++) {
      particleState[i] = Math.floor(Math.random() * 256);
    }
    this.particleStateTexture0 = this.createDataTexture(gl, particleState, particleRes, particleRes);
    this.particleStateTexture1 = this.createDataTexture(gl, particleState, particleRes, particleRes);
    const particleIndices = new Float32Array(this._numParticles);
    for (let i = 0; i < this._numParticles; i++) { particleIndices[i] = i; }
    ...
  }
  \<close>
  The field \<^verbatim>\<open>_numParticles\<close> is \<open>internal_numParticles\<close> here. The function returns the
  layer and the rest of the random stream.
\<close>

definition setNumParticles :: "nat \<Rightarrow> particle_layer \<Rightarrow> rng \<Rightarrow> particle_layer \<times> rng" where
  "setNumParticles numParticles this rnd =
     (let particleRes = nat \<lceil>sqrt (real numParticles)\<rceil>;
          n = particleRes * particleRes;
          particleState = map (\<lambda>r. word_of_int \<lfloor>r * 256\<rfloor>) (stake (n * 4) rnd);
          particleIndices = [0..<n]
      in (this\<lparr>particleStateResolution := particleRes,
               internal_numParticles := n,
               particleStateTexture0 := createDataTexture particleState particleRes particleRes,
               particleStateTexture1 := createDataTexture particleState particleRes particleRes,
               particleIndexBuffer := particleIndices\<rparr>,
          sdrop (n * 4) rnd))"

text \<open>
  A layer before its first \<^verbatim>\<open>setNumParticles\<close>: both counts are 0 (the class's field
  initialisers), and no texture has been made, which the model writes as empty textures.
\<close>

definition fresh_layer :: particle_layer where
  "fresh_layer =
     \<lparr>particleStateResolution = 0, internal_numParticles = 0,
      particleStateTexture0 = createDataTexture [] 0 0,
      particleStateTexture1 = createDataTexture [] 0 0,
      particleIndexBuffer = []\<rparr>"

section \<open>The field synthesizer (src/data/mockWindData.ts)\<close>

text \<open>
  The two steps of the grid are quotients by \<^verbatim>\<open>effectiveDensity\<close>, which is 0 when the
  caller asks for density 0. JavaScript then gives \<^verbatim>\<open>Infinity\<close>, \<^verbatim>\<open>-Infinity\<close> or
  \<^verbatim>\<open>NaN\<close>, and the loop variables take these values after their first increment. The
  loop variables and the steps are therefore of the type \<open>jsnum\<close>: a real or one of the
  three non-finite values.
\<close>

datatype jsnum = Fin real | PosInfinity | NegInfinity | NaN

text \<open>The quotient of two finite numbers, as JavaScript's \<^verbatim>\<open>/\<close> gives it.\<close>

definition js_div :: "real \<Rightarrow> real \<Rightarrow> jsnum" where
  "js_div a b =
     (if b \<noteq> 0 then Fin (a / b)
      else if 0 < a then PosInfinity
      else if a < 0 then NegInfinity
      else NaN)"

text \<open>\<^verbatim>\<open>v += step\<close> on a loop variable.\<close>

fun js_add :: "jsnum \<Rightarrow> jsnum \<Rightarrow> jsnum" where
  "js_add (Fin a) (Fin b) = Fin (a + b)"
| "js_add NaN _ = NaN"
| "js_add _ NaN = NaN"
| "js_add PosInfinity NegInfinity = NaN"
| "js_add NegInfinity PosInfinity = NaN"
| "js_add PosInfinity _ = PosInfinity"
| "js_add _ PosInfinity = PosInfinity"
| "js_add NegInfinity _ = NegInfinity"
| "js_add _ NegInfinity = NegInfinity"

text \<open>The loop guard \<^verbatim>\<open>v <= bound\<close>, the bound being finite.\<close>

fun js_le :: "jsnum \<Rightarrow> real \<Rightarrow> bool" where
  "js_le (Fin a) b = (a \<le> b)"
| "js_le NegInfinity b = True"
| "js_le PosInfinity b = False"
| "js_le NaN b = False"

record bounds =
  west :: real
  south :: real
  east :: real
  north :: real

record WindPoint =
  position :: "real \<times> real"
  direction :: real
  speed :: real

text \<open>
  The body of the inner loop of \<^verbatim>\<open>generateMockWindData\<close> between the cap test and the
  \<^verbatim>\<open>push\<close>: the sample at longitude \<open>lon\<close> and latitude \<open>lat\<close>.
  \<^verbatim>\<open>
      const isNorth = lat > 14.0;
      if (isNorth) {
        direction = Math.PI * 0.5 + Math.sin(lat * 0.3) * 0.5 + Math.cos(lon * 0.2) * 0.3;
        speed = 0.3 + 0.3 * Math.abs(Math.sin(lat * 0.1 + lon * 0.2));
      } else {
        direction = Math.PI * 0.25 + Math.sin(lat * 0.4 + lon * 0.3) * Math.PI * 0.5 +
          Math.cos(lat * 0.3) * 0.4;
        speed = 0.2 + 0.4 * Math.abs(Math.sin(lat * 0.2) + Math.sin(lon * 0.3));
      }
      windData.push({ position: [lon, lat], direction, speed });
  \<close>
\<close>

definition windPointAt :: "real \<Rightarrow> real \<Rightarrow> WindPoint" where
  "windPointAt lon lat =
     (let isNorth = lat > 14.0 in
      if isNorth then
        \<lparr>position = (lon, lat),
         direction = pi * 0.5 + sin (lat * 0.3) * 0.5 + cos (lon * 0.2) * 0.3,
         speed = 0.3 + 0.3 * \<bar>sin (lat * 0.1 + lon * 0.2)\<bar>\<rparr>
      else
        \<lparr>position = (lon, lat),
         direction = pi * 0.25 + sin (lat * 0.4 + lon * 0.3) * pi * 0.5 + cos (lat * 0.3) * 0.4,
         speed = 0.2 + 0.4 * \<bar>sin (lat * 0.2) + sin (lon * 0.3)\<bar>\<rparr>)"

text \<open>
  What a call of \<^verbatim>\<open>generateMockWindData\<close> comes to. The samples of the model hold
  reals, so the model stops with \<open>NonFinite\<close> if a loop variable that is not finite passes
  its guard (only \<^verbatim>\<open>-Infinity\<close> can); \<open>generateMockWindData_finite\<close> below shows that
  this never happens.
\<close>

datatype outcome = Returned "WindPoint list" | NonFinite

definition safetyLimit :: nat where
  "safetyLimit = 500"

text \<open>
  The inner loop,
  \<^verbatim>\<open>
    for (let lon = bounds.west; lon <= bounds.east; lon += lonStep) {
      if (pointCount >= safetyLimit) { console.warn(...); return windData; }
      ... windData.push(...); pointCount++;
    }
  \<close>
  from the value \<open>lon\<close> of its variable on. \<open>Inl\<close> is the \<^verbatim>\<open>return\<close> inside the loop,
  \<open>Inr\<close> the end of the loop with the list and the count as they are then. Every round
  that does not return adds a sample, so the loop ends.
\<close>

function lonLoop ::
  "bounds \<Rightarrow> jsnum \<Rightarrow> real \<Rightarrow> jsnum \<Rightarrow> WindPoint list \<Rightarrow> nat \<Rightarrow> outcome + WindPoint list \<times> nat"
  where
  "lonLoop b lonStep lat lon windData pointCount =
     (if js_le lon (east b) then
        (if pointCount \<ge> safetyLimit then Inl (Returned windData)
         else (case lon of
                 Fin lo \<Rightarrow>
                   lonLoop b lonStep lat (js_add lon lonStep)
                     (windData @ [windPointAt lo lat]) (pointCount + 1)
               | _ \<Rightarrow> Inl NonFinite))
      else Inr (windData, pointCount))"
  by pat_completeness auto
termination
  by (relation "measure (\<lambda>(b, lonStep, lat, lon, windData, pointCount). safetyLimit - pointCount)")
    auto

declare lonLoop.simps [simp del]

text \<open>
  The outer loop,
  \<^verbatim>\<open>
  for (let lat = bounds.south; lat <= bounds.north; lat += latStep) { ... }
  return windData;
  \<close>
  from the value \<open>lat\<close> of its variable on. It need not end (a row may add no sample
  while \<open>lat\<close> does not grow), so the result is an option, \<open>None\<close> for a loop that runs
  forever.
\<close>

partial_function (option) latLoop ::
  "bounds \<Rightarrow> jsnum \<Rightarrow> jsnum \<Rightarrow> jsnum \<Rightarrow> WindPoint list \<Rightarrow> nat \<Rightarrow> outcome option"
  where
  "latLoop b latStep lonStep lat windData pointCount =
     (if js_le lat (north b) then
        (case lat of
           Fin la \<Rightarrow>
             (case lonLoop b lonStep la (Fin (west b)) windData pointCount of
                Inl result \<Rightarrow> Some result
              | Inr (windData', pointCount') \<Rightarrow>
                  latLoop b latStep lonStep (js_add lat latStep) windData' pointCount')
         | _ \<Rightarrow> Some NonFinite)
      else Some (Returned windData))"

text \<open>
  \<^verbatim>\<open>
  export function generateMockWindData(bounds, density: number = 15): WindPoint[] {
    const windData: WindPoint[] = [];
    const safetyLimit = 500;
    const effectiveDensity = Math.min(density, 30);
    const lonStep = (bounds.east - bounds.west) / effectiveDensity;
    const latStep = (bounds.north - bounds.south) / effectiveDensity;
    let pointCount = 0;
    for (let lat = bounds.south; ...) { for (let lon = bounds.west; ...) { ... } }
    return windData;
  }
  \<close>
\<close>

definition generateMockWindData :: "bounds \<Rightarrow> real \<Rightarrow> outcome option" where
  "generateMockWindData b density =
     (let effectiveDensity = min density 30;
          lonStep = js_div (east b - west b) effectiveDensity;
          latStep = js_div (north b - south b) effectiveDensity
      in latLoop b latStep lonStep (Fin (south b)) [] 0)"

section \<open>The nearest-sample lookup\<close>

text \<open>
  Double precision. A finite double is \<open>m \<sqdot> 2\<^sup>j\<close> with \<open>\<bar>m\<bar> < 2\<^sup>5\<^sup>3\<close> and
  \<open>-1074 \<le> j \<le> 971\<close>. An operation of JavaScript gives the double nearest to its exact
  result, a tie going to the even \<open>m\<close> (IEEE 754, round to nearest even): a real \<open>v\<close> with
  \<open>2\<^sup>e \<le> \<bar>v\<bar> < 2\<^sup>e\<^sup>+\<^sup>1\<close> is rounded to a multiple of \<open>2\<^sup>e\<^sup>-\<^sup>5\<^sup>2\<close>, with \<open>e = -1022\<close> for every
  smaller \<open>v\<close> (the subnormal numbers), and a result that reaches \<open>2\<^sup>1\<^sup>0\<^sup>2\<^sup>4\<close> is an infinity.
\<close>

definition round_half_even :: "real \<Rightarrow> int" where
  "round_half_even v =
     (let f = \<lfloor>v\<rfloor>
      in if v - of_int f < 1 / 2 then f
         else if 1 / 2 < v - of_int f then f + 1
         else if even f then f else f + 1)"

definition double :: "real \<Rightarrow> jsnum" where
  "double v =
     (if v = 0 then Fin 0
      else let e = max \<lfloor>log 2 \<bar>v\<bar>\<rfloor> (- 1022);
               ulp = 2 powi (e - 52);
               r = of_int (round_half_even (v / ulp)) * ulp
           in if 2 ^ 1024 \<le> r then PosInfinity
              else if r \<le> - (2 ^ 1024) then NegInfinity
              else Fin r)"

text \<open>
  The operations of the lookup on computed numbers: the exact result of finite operands,
  rounded; the rules of IEEE 754 for the others. \<^verbatim>\<open>Math.pow(v, 2)\<close> is taken to be the
  rounded product \<open>v \<sqdot> v\<close> and \<^verbatim>\<open>Math.sqrt\<close> the correctly rounded root, as IEEE 754 has
  the square root.
\<close>

fun js_mul :: "jsnum \<Rightarrow> jsnum \<Rightarrow> jsnum" where
  "js_mul (Fin a) (Fin b) = double (a * b)"
| "js_mul NaN _ = NaN"
| "js_mul _ NaN = NaN"
| "js_mul (Fin a) PosInfinity = (if a = 0 then NaN else if 0 < a then PosInfinity else NegInfinity)"
| "js_mul (Fin a) NegInfinity = (if a = 0 then NaN else if 0 < a then NegInfinity else PosInfinity)"
| "js_mul PosInfinity (Fin b) = (if b = 0 then NaN else if 0 < b then PosInfinity else NegInfinity)"
| "js_mul NegInfinity (Fin b) = (if b = 0 then NaN else if 0 < b then NegInfinity else PosInfinity)"
| "js_mul PosInfinity PosInfinity = PosInfinity"
| "js_mul PosInfinity NegInfinity = NegInfinity"
| "js_mul NegInfinity PosInfinity = NegInfinity"
| "js_mul NegInfinity NegInfinity = PosInfinity"

fun js_plus :: "jsnum \<Rightarrow> jsnum \<Rightarrow> jsnum" where
  "js_plus (Fin a) (Fin b) = double (a + b)"
| "js_plus a b = js_add a b"

fun Math_sqrt :: "jsnum \<Rightarrow> jsnum" where
  "Math_sqrt (Fin a) = (if a < 0 then NaN else double (sqrt a))"
| "Math_sqrt PosInfinity = PosInfinity"
| "Math_sqrt NegInfinity = NaN"
| "Math_sqrt NaN = NaN"

text \<open>The comparison \<^verbatim>\<open><\<close> of two computed numbers; it fails when either is \<^verbatim>\<open>NaN\<close>.\<close>

fun js_lt :: "jsnum \<Rightarrow> jsnum \<Rightarrow> bool" where
  "js_lt (Fin a) (Fin b) = (a < b)"
| "js_lt (Fin a) PosInfinity = True"
| "js_lt NegInfinity (Fin b) = True"
| "js_lt NegInfinity PosInfinity = True"
| "js_lt _ _ = False"


text \<open>
  The lookup is written out at each place that needs it. Two forms occur. The first is in
  \<^verbatim>\<open>createWindParticles\<close> and \<^verbatim>\<open>updateParticles\<close> of src/app/map.tsx and in
  \<^verbatim>\<open>generateParticles\<close> and \<^verbatim>\<open>updateParticles\<close> of the composite layer:
  \<^verbatim>\<open>
      let closestWindPoint = windData[0];
      let minDistance = Number.MAX_VALUE;
      for (const point of windData) {
        const dx = point.position[0] - lng;
        const dy = point.position[1] - lat;
        const distance = dx * dx + dy * dy;
        if (distance < minDistance) { minDistance = distance; closestWindPoint = point; }
      }
  \<close>
  \<open>closestScan\<close> is the loop, returning both variables as the loop leaves them;
  \<^verbatim>\<open>windData[0]\<close> is \<^verbatim>\<open>undefined\<close> for an empty array, which is \<open>None\<close> here.
\<close>

fun closestScan ::
  "real \<Rightarrow> real \<Rightarrow> WindPoint list \<Rightarrow> WindPoint option \<Rightarrow> jsnum \<Rightarrow> WindPoint option \<times> jsnum"
  where
  "closestScan lng lat [] closestWindPoint minDistance = (closestWindPoint, minDistance)"
| "closestScan lng lat (point # points) closestWindPoint minDistance =
     (let dx = double (fst (position point) - lng);
          dy = double (snd (position point) - lat);
          distance = js_plus (js_mul dx dx) (js_mul dy dy)
      in if js_lt distance minDistance then closestScan lng lat points (Some point) distance
         else closestScan lng lat points closestWindPoint minDistance)"

definition closestWindPoint_squared :: "WindPoint list \<Rightarrow> real \<Rightarrow> real \<Rightarrow> WindPoint option" where
  "closestWindPoint_squared windData lng lat =
     fst (closestScan lng lat windData (case windData of [] \<Rightarrow> None | w # _ \<Rightarrow> Some w)
       (Fin Number_MAX_VALUE))"

text \<open>
  The second form is in \<^verbatim>\<open>generateWindParticles\<close> and \<^verbatim>\<open>updateWindParticles\<close> of
  src/data/mockWindData.ts:
  \<^verbatim>\<open>
      let closestDistance = Infinity;
      let closestWindPoint: WindPoint | null = null;
      for (const windPoint of windData) {
        const distance = Math.sqrt(
          Math.pow(windPoint.position[0] - lngLat.lng, 2) +
          Math.pow(windPoint.position[1] - lngLat.lat, 2));
        if (distance < closestDistance) { closestDistance = distance; closestWindPoint = windPoint; }
      }
  \<close>
\<close>

fun closestScanSqrt ::
  "real \<Rightarrow> real \<Rightarrow> WindPoint list \<Rightarrow> WindPoint option \<Rightarrow> jsnum \<Rightarrow> WindPoint option \<times> jsnum"
  where
  "closestScanSqrt lng lat [] closestWindPoint closestDistance = (closestWindPoint, closestDistance)"
| "closestScanSqrt lng lat (windPoint # points) closestWindPoint closestDistance =
     (let dx = double (fst (position windPoint) - lng);
          dy = double (snd (position windPoint) - lat);
          distance = Math_sqrt (js_plus (js_mul dx dx) (js_mul dy dy))
      in if js_lt distance closestDistance
         then closestScanSqrt lng lat points (Some windPoint) distance
         else closestScanSqrt lng lat points closestWindPoint closestDistance)"

definition closestWindPoint_sqrt :: "WindPoint list \<Rightarrow> real \<Rightarrow> real \<Rightarrow> WindPoint option" where
  "closestWindPoint_sqrt windData lng lat = fst (closestScanSqrt lng lat windData None PosInfinity)"

text \<open>
  The distance from a sample to a point as the two loops compute it: the sum of the two
  squares, and its square root.
\<close>

definition computedSquaredDistance :: "WindPoint \<Rightarrow> real \<Rightarrow> real \<Rightarrow> jsnum" where
  "computedSquaredDistance point lng lat =
     (let dx = double (fst (position point) - lng);
          dy = double (snd (position point) - lat)
      in js_plus (js_mul dx dx) (js_mul dy dy))"

definition computedDistance :: "WindPoint \<Rightarrow> real \<Rightarrow> real \<Rightarrow> jsnum" where
  "computedDistance point lng lat = Math_sqrt (computedSquaredDistance point lng lat)"

text \<open>The Euclidean distance from a sample to a point, and its square, as real numbers.\<close>

definition squaredDistance :: "WindPoint \<Rightarrow> real \<Rightarrow> real \<Rightarrow> real" where
  "squaredDistance point lng lat =
     (fst (position point) - lng) * (fst (position point) - lng) +
     (snd (position point) - lat) * (snd (position point) - lat)"

definition euclideanDistance :: "WindPoint \<Rightarrow> real \<Rightarrow> real \<Rightarrow> real" where
  "euclideanDistance point lng lat = sqrt (squaredDistance point lng lat)"

text \<open>
  Fields for the examples below. The first has two samples at the same place. The second is
  the field that \<^verbatim>\<open>generateMockWindData\<close> returns for the bounds
  \<^verbatim>\<open>{west: 100, south: 10, east: 103, north: 18}\<close> and density 1: the four corners, at
  distances 4, 5, 4 and 5 from the point \<open>(100, 14)\<close>. In the next two a sample lies a
  little off the parallel of the other, by \<open>2\<^sup>-\<^sup>3\<^sup>0\<close> and by \<open>2\<^sup>-\<^sup>2\<^sup>6\<close> degrees. The last
  is not a field of geographic coordinates: the squares of the distances of its samples
  from the point \<open>(3 \<sqdot> 2\<^sup>6\<^sup>0\<^sup>0, 0)\<close> are beyond the doubles.
\<close>

definition tied_samples :: "WindPoint list" where
  "tied_samples =
     [\<lparr>position = (0, 0), direction = 0, speed = 0.2\<rparr>,
      \<lparr>position = (2, 0), direction = 1, speed = 0.4\<rparr>,
      \<lparr>position = (2, 0), direction = 2, speed = 0.6\<rparr>]"



definition near_tie_samples :: "WindPoint list" where
  "near_tie_samples =
     [\<lparr>position = (101, 1 / 2 ^ 30), direction = 0, speed = 0.2\<rparr>,
      \<lparr>position = (101, 0), direction = 1, speed = 0.4\<rparr>]"

definition near_root_tie_samples :: "WindPoint list" where
  "near_root_tie_samples =
     [\<lparr>position = (101, 1 / 2 ^ 26), direction = 0, speed = 0.2\<rparr>,
      \<lparr>position = (101, 0), direction = 1, speed = 0.4\<rparr>]"


section \<open>Random numbers, exceptions, \<^verbatim>\<open>Array.prototype.map\<close>\<close>

text \<open>\<^verbatim>\<open>Math.random()\<close>: the head of the stream, and the stream that is left.\<close>

definition Math_random :: "rng \<Rightarrow> real \<times> rng" where
  "Math_random rnd = (shd rnd, stl rnd)"

text \<open>
  What the program can throw: the map's \<^verbatim>\<open>project\<close> and \<^verbatim>\<open>unproject\<close> may throw
  (src/app/map.tsx catches it), and reading a field of \<^verbatim>\<open>undefined\<close> is a
  \<^verbatim>\<open>TypeError\<close>. A projection is a function to an option, \<open>None\<close> when it throws.
\<close>

datatype error = ProjectionError | TypeError

type_synonym projection = "real \<times> real \<Rightarrow> (real \<times> real) option"

text \<open>
  \<^verbatim>\<open>particles.map(callback)\<close>, the callback drawing random numbers: the elements are
  visited in order, the stream is passed from one call to the next, and the array that
  comes back has one element for each call.
\<close>

fun Array_map :: "('a \<Rightarrow> rng \<Rightarrow> 'b \<times> rng) \<Rightarrow> 'a list \<Rightarrow> rng \<Rightarrow> 'b list \<times> rng" where
  "Array_map callback [] rnd = ([], rnd)"
| "Array_map callback (particle # particles) rnd =
     (let (particle', rnd) = callback particle rnd;
          (particles', rnd) = Array_map callback particles rnd
      in (particle' # particles', rnd))"

text \<open>The same when the callback may throw: the first exception ends the whole call.\<close>

fun Array_map_throwing ::
  "('a \<Rightarrow> rng \<Rightarrow> error + 'b \<times> rng) \<Rightarrow> 'a list \<Rightarrow> rng \<Rightarrow> error + 'b list \<times> rng" where
  "Array_map_throwing callback [] rnd = Inr ([], rnd)"
| "Array_map_throwing callback (particle # particles) rnd =
     (case callback particle rnd of
        Inl e \<Rightarrow> Inl e
      | Inr (particle', rnd) \<Rightarrow>
          (case Array_map_throwing callback particles rnd of
             Inl e \<Rightarrow> Inl e
           | Inr (particles', rnd) \<Rightarrow> Inr (particle' # particles', rnd)))"

section \<open>The canonical particle update (src/data/mockWindData.ts)\<close>

record WindParticle =
  x :: real
  y :: real
  age :: real
  maxAge :: real
  speed :: real
  direction :: real

text \<open>
  The callback of \<^verbatim>\<open>updateWindParticles\<close>:
  \<^verbatim>\<open>
    particle.x += Math.cos(particle.direction) * particle.speed * 2;
    particle.y += Math.sin(particle.direction) * particle.speed * 2;
    particle.age += 1;
    if (particle.age >= particle.maxAge || particle.x < 0 || particle.x > width ||
        particle.y < 0 || particle.y > height) {
      const x = Math.random() * width;
      const y = Math.random() * height;
      const lngLat = map.unproject([x, y]);
      ... the lookup with Math.sqrt, from closestWindPoint = null ...
      if (closestWindPoint) {
        return { x, y, age: 0, maxAge: 50 + Math.random() * 50,
                 direction: closestWindPoint.direction, speed: closestWindPoint.speed * 1.5 };
      }
    }
    return particle;
  \<close>
  Nothing catches what \<^verbatim>\<open>map.unproject\<close> throws here.
\<close>

definition updateWindParticle ::
  "WindPoint list \<Rightarrow> real \<Rightarrow> real \<Rightarrow> projection \<Rightarrow> WindParticle \<Rightarrow> rng \<Rightarrow> error + WindParticle \<times> rng"
  where
  "updateWindParticle windData width height unproject particle rnd =
     (let particle = particle\<lparr>x := x particle + cos (direction particle) * speed particle * 2\<rparr>;
          particle = particle\<lparr>y := y particle + sin (direction particle) * speed particle * 2\<rparr>;
          particle = particle\<lparr>age := age particle + 1\<rparr>
      in if age particle \<ge> maxAge particle \<or> x particle < 0 \<or> x particle > width \<or>
            y particle < 0 \<or> y particle > height
         then
           (let (r, rnd) = Math_random rnd; newX = r * width;
                (r, rnd) = Math_random rnd; newY = r * height
            in case unproject (newX, newY) of
                 None \<Rightarrow> Inl ProjectionError
               | Some lngLat \<Rightarrow>
                   (case closestWindPoint_sqrt windData (fst lngLat) (snd lngLat) of
                      Some closestWindPoint \<Rightarrow>
                        (let (r, rnd) = Math_random rnd
                         in Inr (\<lparr>x = newX, y = newY, age = 0, maxAge = 50 + r * 50,
                                  speed = WindPoint.speed closestWindPoint * 1.5,
                                  direction = WindPoint.direction closestWindPoint\<rparr>, rnd))
                    | None \<Rightarrow> Inr (particle, rnd)))
         else Inr (particle, rnd))"

definition updateWindParticles ::
  "WindParticle list \<Rightarrow> WindPoint list \<Rightarrow> real \<Rightarrow> real \<Rightarrow> projection \<Rightarrow> rng
     \<Rightarrow> error + WindParticle list \<times> rng" where
  "updateWindParticles particles windData width height unproject rnd =
     Array_map_throwing (updateWindParticle windData width height unproject) particles rnd"

text \<open>
  Inputs for the examples below: a particle that goes on, one that has reached its age, and
  a projection that is the identity but throws left of the screen.
\<close>

definition young_particle :: WindParticle where
  "young_particle = \<lparr>x = 1, y = 1, age = 0, maxAge = 10, speed = 1, direction = 0\<rparr>"

definition old_particle :: WindParticle where
  "old_particle = \<lparr>x = 1, y = 1, age = 9, maxAge = 10, speed = 1, direction = 0\<rparr>"

definition screen_unproject :: projection where
  "screen_unproject point = (if fst point < 0 then None else Some point)"

section \<open>The canvas map (src/app/map.tsx)\<close>

text \<open>
  The particle of src/app/map.tsx has the fields of the canonical one and the geographic
  position besides.
\<close>

record MapParticle = WindParticle +
  lng :: real
  lat :: real

text \<open>What the program uses of the map widget.\<close>

record Map =
  unproject :: projection
  project :: projection

definition SOUTHEAST_ASIA_BOUNDS :: bounds where
  "SOUTHEAST_ASIA_BOUNDS = \<lparr>west = 92, south = -11, east = 141, north = 28.5\<rparr>"

definition isInSoutheastAsia :: "real \<Rightarrow> real \<Rightarrow> bool" where
  "isInSoutheastAsia lg lt =
     (lg \<ge> west SOUTHEAST_ASIA_BOUNDS \<and> lg \<le> east SOUTHEAST_ASIA_BOUNDS \<and>
      lt \<ge> south SOUTHEAST_ASIA_BOUNDS \<and> lt \<le> north SOUTHEAST_ASIA_BOUNDS)"

text \<open>
  The loop of \<^verbatim>\<open>createWindParticles\<close>:
  \<^verbatim>\<open>
      while (particles.length < count && attempts < maxAttempts) {
        attempts++;
        const x = Math.random() * width;
        const y = Math.random() * height;
        try {
          const lngLat = map.current.unproject([x, y]);
          const lng = lngLat.lng; const lat = lngLat.lat;
          if (!isInSoutheastAsia(lng, lat)) { continue; }
          ... the lookup on squared distances, from closestWindPoint = windData[0] ...
          const maxAge = 60 + Math.random() * 60;
          particles.push({ x, y, lng, lat, age: Math.random() * maxAge, maxAge,
            speed: closestWindPoint.speed * 1.5, direction: closestWindPoint.direction });
        } catch (e) { continue; }
      }
  \<close>
  The result is the array, the number of attempts and the stream. With an empty
  \<open>windData\<close> (which \<^verbatim>\<open>createWindParticles\<close> excludes before the loop)
  \<^verbatim>\<open>closestWindPoint.speed\<close> throws, after \<^verbatim>\<open>maxAge\<close> and the age are drawn, and
  the \<^verbatim>\<open>catch\<close> goes on with the loop.
\<close>

function spawnLoop ::
  "WindPoint list \<Rightarrow> real \<Rightarrow> real \<Rightarrow> nat \<Rightarrow> Map \<Rightarrow> nat \<Rightarrow> MapParticle list \<Rightarrow> nat \<Rightarrow> rng
     \<Rightarrow> MapParticle list \<times> nat \<times> rng" where
  "spawnLoop windData width height count m maxAttempts particles attempts rnd =
     (if length particles < count \<and> attempts < maxAttempts then
        (let attempts = attempts + 1;
             (r, rnd) = Math_random rnd; newX = r * width;
             (r, rnd) = Math_random rnd; newY = r * height
         in case unproject m (newX, newY) of
              None \<Rightarrow> spawnLoop windData width height count m maxAttempts particles attempts rnd
            | Some lngLat \<Rightarrow>
                if \<not> isInSoutheastAsia (fst lngLat) (snd lngLat)
                then spawnLoop windData width height count m maxAttempts particles attempts rnd
                else
                  (let closestWindPoint = closestWindPoint_squared windData (fst lngLat) (snd lngLat);
                       (r, rnd) = Math_random rnd; maxAge = 60 + r * 60;
                       (r, rnd) = Math_random rnd
                   in case closestWindPoint of
                        None \<Rightarrow>
                          spawnLoop windData width height count m maxAttempts particles attempts rnd
                      | Some closestWindPoint \<Rightarrow>
                          spawnLoop windData width height count m maxAttempts
                            (particles @
                               [\<lparr>x = newX, y = newY, age = r * maxAge, maxAge = maxAge,
                                 speed = WindPoint.speed closestWindPoint * 1.5,
                                 direction = WindPoint.direction closestWindPoint,
                                 lng = fst lngLat, lat = snd lngLat\<rparr>])
                            attempts rnd))
      else (particles, attempts, rnd))"
  by pat_completeness auto
termination
  by (relation "measure (\<lambda>(windData, width, height, count, m, maxAttempts, particles, attempts, rnd).
        maxAttempts - attempts)")
    (auto simp: Math_random_def)

declare spawnLoop.simps [simp del]

text \<open>
  \<^verbatim>\<open>
  const createWindParticles = (windData, width, height, count: number = 1200) => {
      if (!map.current || windData.length === 0) return [];
      const particles: WindParticle[] = [];
      let attempts = 0;
      const maxAttempts = count * 3;
      while ...
      return particles;
  }
  \<close>
  \<open>map_current\<close> is \<^verbatim>\<open>map.current\<close>, \<open>None\<close> when it is \<^verbatim>\<open>null\<close>.
\<close>

definition createWindParticles ::
  "Map option \<Rightarrow> WindPoint list \<Rightarrow> real \<Rightarrow> real \<Rightarrow> nat \<Rightarrow> rng \<Rightarrow> MapParticle list \<times> rng" where
  "createWindParticles map_current windData width height count rnd =
     (case map_current of
        None \<Rightarrow> ([], rnd)
      | Some m \<Rightarrow>
          if length windData = 0 then ([], rnd)
          else
            (let particles = [];
                 attempts = 0;
                 maxAttempts = count * 3;
                 (particles, attempts, rnd) =
                   spawnLoop windData width height count m maxAttempts particles attempts rnd
             in (particles, rnd)))"

text \<open>
  The retry loop of \<^verbatim>\<open>updateParticles\<close>, which looks for a new place for a particle
  that has ended:
  \<^verbatim>\<open>
            while (!validPosition && attempts < maxAttempts) {
              attempts++;
              const newX = Math.random() * width;
              const newY = Math.random() * height;
              try {
                const lngLat = map.current!.unproject([newX, newY]);
                const newLng = lngLat.lng; const newLat = lngLat.lat;
                if (isInSoutheastAsia(newLng, newLat)) {
                  validPosition = true;
                  ... the lookup on squared distances ...
                  particle = { x: newX, y: newY, lng: newLng, lat: newLat, age: 0,
                    maxAge: 60 + Math.random() * 60,
                    speed: closestWindPoint.speed * 1.5, direction: closestWindPoint.direction };
                }
              } catch (e) { continue; }
            }
  \<close>
\<close>

function respawnLoop ::
  "WindPoint list \<Rightarrow> real \<Rightarrow> real \<Rightarrow> Map \<Rightarrow> nat \<Rightarrow> bool \<Rightarrow> nat \<Rightarrow> MapParticle \<Rightarrow> rng
     \<Rightarrow> bool \<times> MapParticle \<times> rng" where
  "respawnLoop windData width height m maxAttempts validPosition attempts particle rnd =
     (if \<not> validPosition \<and> attempts < maxAttempts then
        (let attempts = attempts + 1;
             (r, rnd) = Math_random rnd; newX = r * width;
             (r, rnd) = Math_random rnd; newY = r * height
         in case unproject m (newX, newY) of
              None \<Rightarrow>
                respawnLoop windData width height m maxAttempts validPosition attempts particle rnd
            | Some lngLat \<Rightarrow>
                (let newLng = fst lngLat; newLat = snd lngLat
                 in if isInSoutheastAsia newLng newLat then
                      (let validPosition = True;
                           closestWindPoint = closestWindPoint_squared windData newLng newLat;
                           (r, rnd) = Math_random rnd
                       in case closestWindPoint of
                            None \<Rightarrow>
                              respawnLoop windData width height m maxAttempts validPosition attempts
                                particle rnd
                          | Some closestWindPoint \<Rightarrow>
                              respawnLoop windData width height m maxAttempts validPosition attempts
                                \<lparr>x = newX, y = newY, age = 0, maxAge = 60 + r * 60,
                                 speed = WindPoint.speed closestWindPoint * 1.5,
                                 direction = WindPoint.direction closestWindPoint,
                                 lng = newLng, lat = newLat\<rparr>
                                rnd)
                    else
                      respawnLoop windData width height m maxAttempts validPosition attempts
                        particle rnd))
      else (validPosition, particle, rnd))"
  by pat_completeness auto
termination
  by (relation "measure (\<lambda>(windData, width, height, m, maxAttempts, validPosition, attempts,
        particle, rnd). maxAttempts - attempts)")
    (auto simp: Math_random_def)

declare respawnLoop.simps [simp del]

text \<open>
  The callback of \<^verbatim>\<open>updateParticles\<close>:
  \<^verbatim>\<open>
        try {
          particle.x += Math.cos(particle.direction) * particle.speed * 0.3;
          particle.y += Math.sin(particle.direction) * particle.speed * 0.3;
          particle.age++;
          const lngLat = map.current!.unproject([particle.x, particle.y]);
          particle.lng = lngLat.lng;
          particle.lat = lngLat.lat;
          const isOutOfBounds = !isInSoutheastAsia(particle.lng, particle.lat);
          if (particle.age >= particle.maxAge || particle.x < -20 || particle.x > width + 20 ||
              particle.y < -20 || particle.y > height + 20 || isOutOfBounds) {
            let validPosition = false;
            let attempts = 0;
            const maxAttempts = 10;
            while ...
            if (!validPosition) {
              const newLng = SOUTHEAST_ASIA_BOUNDS.west +
                Math.random() * (SOUTHEAST_ASIA_BOUNDS.east - SOUTHEAST_ASIA_BOUNDS.west);
              const newLat = SOUTHEAST_ASIA_BOUNDS.south +
                Math.random() * (SOUTHEAST_ASIA_BOUNDS.north - SOUTHEAST_ASIA_BOUNDS.south);
              try {
                const point = map.current!.project([newLng, newLat]);
                const newX = point.x; const newY = point.y;
                ... the lookup on squared distances ...
                particle = { x: newX, y: newY, lng: newLng, lat: newLat, age: 0,
                  maxAge: 60 + Math.random() * 60,
                  speed: closestWindPoint.speed * 1.5, direction: closestWindPoint.direction };
              } catch (e) { particle.age = 0; }
            }
          }
          return particle;
        } catch (e) { return particle; }
  \<close>
\<close>

definition updateParticle ::
  "WindPoint list \<Rightarrow> real \<Rightarrow> real \<Rightarrow> Map \<Rightarrow> MapParticle \<Rightarrow> rng \<Rightarrow> MapParticle \<times> rng" where
  "updateParticle windData width height m particle rnd =
     (let particle = particle\<lparr>x := x particle + cos (direction particle) * speed particle * 0.3\<rparr>;
          particle = particle\<lparr>y := y particle + sin (direction particle) * speed particle * 0.3\<rparr>;
          particle = particle\<lparr>age := age particle + 1\<rparr>
      in case unproject m (x particle, y particle) of
           None \<Rightarrow> (particle, rnd)
         | Some lngLat \<Rightarrow>
             (let particle = particle\<lparr>lng := fst lngLat\<rparr>;
                  particle = particle\<lparr>lat := snd lngLat\<rparr>;
                  isOutOfBounds = (\<not> isInSoutheastAsia (lng particle) (lat particle))
              in if age particle \<ge> maxAge particle \<or> x particle < - 20 \<or> x particle > width + 20 \<or>
                    y particle < - 20 \<or> y particle > height + 20 \<or> isOutOfBounds
                 then
                   (let validPosition = False;
                        attempts = 0;
                        maxAttempts = 10;
                        (validPosition, particle, rnd) =
                          respawnLoop windData width height m maxAttempts validPosition attempts
                            particle rnd
                    in if \<not> validPosition then
                         (let (r, rnd) = Math_random rnd;
                              newLng = west SOUTHEAST_ASIA_BOUNDS +
                                r * (east SOUTHEAST_ASIA_BOUNDS - west SOUTHEAST_ASIA_BOUNDS);
                              (r, rnd) = Math_random rnd;
                              newLat = south SOUTHEAST_ASIA_BOUNDS +
                                r * (north SOUTHEAST_ASIA_BOUNDS - south SOUTHEAST_ASIA_BOUNDS)
                          in case project m (newLng, newLat) of
                               None \<Rightarrow> (particle\<lparr>age := 0\<rparr>, rnd)
                             | Some point \<Rightarrow>
                                 (let newX = fst point; newY = snd point;
                                      closestWindPoint =
                                        closestWindPoint_squared windData newLng newLat;
                                      (r, rnd) = Math_random rnd
                                  in case closestWindPoint of
                                       None \<Rightarrow> (particle\<lparr>age := 0\<rparr>, rnd)
                                     | Some closestWindPoint \<Rightarrow>
                                         (\<lparr>x = newX, y = newY, age = 0, maxAge = 60 + r * 60,
                                           speed = WindPoint.speed closestWindPoint * 1.5,
                                           direction = WindPoint.direction closestWindPoint,
                                           lng = newLng, lat = newLat\<rparr>, rnd)))
                       else (particle, rnd))
                 else (particle, rnd)))"

text \<open>
  \<^verbatim>\<open>
  const updateParticles = (particles, windData, width, height): WindParticle[] => {
      if (!map.current || windData.length === 0) return particles;
      return particles.map((particle) => { ... });
  }
  \<close>
\<close>

definition updateParticles ::
  "Map option \<Rightarrow> MapParticle list \<Rightarrow> WindPoint list \<Rightarrow> real \<Rightarrow> real \<Rightarrow> rng
     \<Rightarrow> MapParticle list \<times> rng" where
  "updateParticles map_current particles windData width height rnd =
     (case map_current of
        None \<Rightarrow> (particles, rnd)
      | Some m \<Rightarrow>
          if length windData = 0 then (particles, rnd)
          else Array_map (updateParticle windData width height m) particles rnd)"

text \<open>
  What a frame does to the population, in \<^verbatim>\<open>animateParticles\<close>:
  \<^verbatim>\<open>
    if (!map.current || !canvasRef.current) return;
    const canvas = canvasRef.current;
    const ctx = canvas.getContext("2d");
    if (!ctx) return;
    ...
    if (particlesRef.current.length === 0 && windDataRef.current.length > 0) {
      particlesRef.current = createWindParticles(windDataRef.current, canvas.width, canvas.height, 600);
    }
    if (particlesRef.current.length > 0) {
      particlesRef.current = updateParticles(particlesRef.current, windDataRef.current,
        canvas.width, canvas.height);
    }
    ... the drawing ...
  \<close>
  \<open>canvas\<close> is the size of the canvas, \<open>None\<close> without a canvas or without its drawing
  context; the result is \<^verbatim>\<open>particlesRef.current\<close> after the frame.
\<close>

definition animateParticles ::
  "Map option \<Rightarrow> (real \<times> real) option \<Rightarrow> MapParticle list \<Rightarrow> WindPoint list \<Rightarrow> rng
     \<Rightarrow> MapParticle list \<times> rng" where
  "animateParticles map_current canvas particlesRef windDataRef rnd =
     (case canvas of
        None \<Rightarrow> (particlesRef, rnd)
      | Some (width, height) \<Rightarrow>
          if map_current = None then (particlesRef, rnd)
          else
            (let (particlesRef, rnd) =
                   (if length particlesRef = 0 \<and> length windDataRef > 0
                    then createWindParticles map_current windDataRef width height 600 rnd
                    else (particlesRef, rnd));
                 (particlesRef, rnd) =
                   (if length particlesRef > 0
                    then updateParticles map_current particlesRef windDataRef width height rnd
                    else (particlesRef, rnd))
             in (particlesRef, rnd)))"

text \<open>
  Inputs for the examples below: a map whose screen is the region itself (pixel \<open>(px, py)\<close>
  is longitude \<open>px\<close>, latitude \<open>py\<close>), a map that shows a place outside the region, and
  three particles of the canvas map, the last one about to move to a place left of the
  screen, where \<^verbatim>\<open>unproject\<close> throws.
\<close>

definition region_map :: Map where
  "region_map = \<lparr>unproject = screen_unproject, project = Some\<rparr>"

definition elsewhere_map :: Map where
  "elsewhere_map = \<lparr>unproject = (\<lambda>point. Some (fst point, snd point + 60)), project = (\<lambda>point. None)\<rparr>"

definition young_map_particle :: MapParticle where
  "young_map_particle =
     \<lparr>x = 100, y = 10, age = 0, maxAge = 60, speed = 1, direction = 0, lng = 100, lat = 10\<rparr>"

definition old_map_particle :: MapParticle where
  "old_map_particle =
     \<lparr>x = 100, y = 10, age = 59, maxAge = 60, speed = 1, direction = 0, lng = 100, lat = 10\<rparr>"


section \<open>The composite layer (\<^verbatim>\<open>WindParticleLayer\<close>, src/unnamed/part 004)\<close>

record ParticleType =
  position :: "real \<times> real"
  direction :: real
  speed :: real
  age :: real
  maxAge :: real
  size :: real
  color :: "int \<times> int \<times> int \<times> jsnum"

text \<open>
  \<^verbatim>\<open>200 * (1 - particle.age / particle.maxAge)\<close>, the alpha of a particle that goes
  on. The quotient is not finite when \<open>maxAge\<close> is 0.
\<close>

definition fadedAlpha :: "real \<Rightarrow> real \<Rightarrow> jsnum" where
  "fadedAlpha a m =
     (case js_div a m of
        Fin q \<Rightarrow> Fin (200 * (1 - q))
      | PosInfinity \<Rightarrow> NegInfinity
      | NegInfinity \<Rightarrow> PosInfinity
      | NaN \<Rightarrow> NaN)"

text \<open>
  The callback of \<^verbatim>\<open>WindParticleLayer.updateParticles\<close>:
  \<^verbatim>\<open>
      particle.age += 1;
      if (particle.age >= particle.maxAge) {
        const longitude = bounds.west + Math.random() * (bounds.east - bounds.west);
        const latitude = bounds.south + Math.random() * (bounds.north - bounds.south);
        ... the lookup on squared distances ...
        const maxAge = 50 + Math.random() * 50;
        const color = [...getWindColor(closestWindPoint.speed), 200];
        return { position: [longitude, latitude], direction: closestWindPoint.direction,
          speed: closestWindPoint.speed, age: 0, maxAge,
          size: 6 + closestWindPoint.speed * 15, color };
      } else {
        const speed = particle.speed * particleSpeed;
        const x = particle.position[0] + Math.cos(particle.direction) * speed;
        const y = particle.position[1] + Math.sin(particle.direction) * speed;
        if (x < bounds.west || x > bounds.east || y < bounds.south || y > bounds.north) {
          // If out of bounds, set age to maximum to create a new one in next frame
          particle.age = particle.maxAge;
          return particle;
        }
        const opacityFactor = 1 - particle.age / particle.maxAge;
        particle.color[3] = 200 * opacityFactor;
        particle.position = [x, y];
        return particle;
      }
  \<close>
  With an empty \<open>windData\<close>, \<^verbatim>\<open>closestWindPoint\<close> is \<^verbatim>\<open>undefined\<close> and
  \<^verbatim>\<open>closestWindPoint.speed\<close> throws; nothing catches it.
\<close>

definition layerUpdateParticle ::
  "real \<Rightarrow> bounds \<Rightarrow> WindPoint list \<Rightarrow> ParticleType \<Rightarrow> rng \<Rightarrow> error + ParticleType \<times> rng" where
  "layerUpdateParticle particleSpeed b windData particle rnd =
     (let particle = particle\<lparr>age := age particle + 1\<rparr>
      in if age particle \<ge> maxAge particle then
           (let (r, rnd) = Math_random rnd;
                longitude = west b + r * (east b - west b);
                (r, rnd) = Math_random rnd;
                latitude = south b + r * (north b - south b);
                closestWindPoint = closestWindPoint_squared windData longitude latitude;
                (r, rnd) = Math_random rnd;
                maxAge = 50 + r * 50
            in case closestWindPoint of
                 None \<Rightarrow> Inl TypeError
               | Some closestWindPoint \<Rightarrow>
                   (let (cr, cg, cb) = getWindColor (WindPoint.speed closestWindPoint);
                        color = (cr, cg, cb, Fin 200)
                    in Inr (\<lparr>position = (longitude, latitude),
                             direction = WindPoint.direction closestWindPoint,
                             speed = WindPoint.speed closestWindPoint,
                             age = 0, maxAge = maxAge,
                             size = 6 + WindPoint.speed closestWindPoint * 15,
                             color = color\<rparr>, rnd)))
         else
           (let speed = ParticleType.speed particle * particleSpeed;
                x = fst (position particle) + cos (direction particle) * speed;
                y = snd (position particle) + sin (direction particle) * speed
            in if x < west b \<or> x > east b \<or> y < south b \<or> y > north b then
                 Inr (particle\<lparr>age := maxAge particle\<rparr>, rnd)
               else
                 (let (cr, cg, cb, ca) = color particle;
                      particle = particle\<lparr>color := (cr, cg, cb,
                                   fadedAlpha (age particle) (maxAge particle))\<rparr>;
                      particle = particle\<lparr>position := (x, y)\<rparr>
                  in Inr (particle, rnd))))"

text \<open>
  \<^verbatim>\<open>
  updateParticles() {
    const { animate, particleSpeed = 0.0075, bounds } = this.props;
    const { particles, windData } = this.state;
    if (!animate || particles.length === 0) return particles;
    return particles.map(particle => { ... });
  }
  \<close>
  The three properties and the two fields of the state are arguments here;
  \<open>particleSpeed\<close> is \<open>None\<close> when the property is \<^verbatim>\<open>undefined\<close>.
\<close>

definition WindParticleLayer_updateParticles ::
  "bool \<Rightarrow> real option \<Rightarrow> bounds \<Rightarrow> ParticleType list \<Rightarrow> WindPoint list \<Rightarrow> rng
     \<Rightarrow> error + ParticleType list \<times> rng" where
  "WindParticleLayer_updateParticles animate particleSpeed b particles windData rnd =
     (let particleSpeed = (case particleSpeed of None \<Rightarrow> 0.0075 | Some v \<Rightarrow> v)
      in if \<not> animate \<or> length particles = 0 then Inr (particles, rnd)
         else Array_map_throwing (layerUpdateParticle particleSpeed b windData) particles rnd)"

text \<open>
  Inputs for the examples below: the unit square as bounds, a particle of the layer that
  goes on inside it, one about to leave it on the east, and one that has reached its age.
\<close>

definition unit_bounds :: bounds where
  "unit_bounds = \<lparr>west = 0, south = 0, east = 1, north = 1\<rparr>"

definition inner_particle :: ParticleType where
  "inner_particle =
     \<lparr>position = (0.5, 0.5), direction = 0, speed = 1, age = 0, maxAge = 50, size = 21,
      color = (255, 0, 0, Fin 200)\<rparr>"

definition leaving_particle :: ParticleType where
  "leaving_particle =
     \<lparr>position = (0.999, 0.5), direction = 0, speed = 1, age = 0, maxAge = 50, size = 21,
      color = (255, 0, 0, Fin 200)\<rparr>"

definition expired_particle :: ParticleType where
  "expired_particle =
     \<lparr>position = (0.5, 0.5), direction = 0, speed = 1, age = 49, maxAge = 50, size = 21,
      color = (255, 0, 0, Fin 200)\<rparr>"

section \<open>Properties of the colour ramp\<close>

text \<open>
  C7. \<^verbatim>\<open>getWindColor\<close> is defined by cases on the bands \<open>[0, 0.3)\<close>, \<open>[0.3, 0.6)\<close> and
  \<open>[0.6, \<infinity>)\<close>: the fixed colour \<open>(30, 144, 255)\<close> on the first; on the second a colour
  whose green channel is \<open>200 + 55 \<sqdot> speed\<close> rounded, on the third \<open>165 - 165 \<sqdot> speed\<close>
  rounded: a linear function of the speed, rounded. At speed \<open>0.1\<close> it is the fixed
  colour, and the green channel at \<open>0.9\<close> is below the one at \<open>0.6\<close>.
\<close>

theorem getWindColor_bands:
  "(\<forall>speed. 0 \<le> speed \<and> speed < 0.3 \<longrightarrow> getWindColor speed = (30, 144, 255)) \<and>
   (\<forall>speed. 0.3 \<le> speed \<and> speed < 0.6 \<longrightarrow>
      getWindColor speed = (255, Math_round (200 + 55 * speed), 0)) \<and>
   (\<forall>speed. 0.6 \<le> speed \<longrightarrow>
      getWindColor speed = (255, Math_round (165 - 165 * speed), 0)) \<and>
   getWindColor 0.1 = (30, 144, 255) \<and>
   green (getWindColor 0.9) < green (getWindColor 0.6)"
proof -
  have low: "getWindColor speed = (30, 144, 255)" if "speed < 0.3" for speed
    using that by (simp add: getWindColor_def)
  have mid: "getWindColor speed = (255, Math_round (200 + 55 * speed), 0)"
    if "0.3 \<le> speed" "speed < 0.6" for speed
    using that by (simp add: getWindColor_def mult.commute)
  have high: "getWindColor speed = (255, Math_round (165 - 165 * speed), 0)"
    if "0.6 \<le> speed" for speed
    using that by (simp add: getWindColor_def mult.commute)
  have g9: "green (getWindColor 0.9) = 17"
    by (simp add: high green_def Math_round_def)
  have g6: "green (getWindColor 0.6) = 66"
    by (simp add: high green_def Math_round_def)
  show ?thesis
    using low mid high g9 g6 by simp
qed

theorem getWindColor_bands_witness:
  "getWindColor 0.2 = (30, 144, 255) \<and> getWindColor 0.4 = (255, 222, 0) \<and>
   getWindColor 0.8 = (255, 33, 0)"
proof -
  have "getWindColor 0.2 = (30, 144, 255)"
    using getWindColor_bands by simp
  moreover have "getWindColor 0.4 = (255, Math_round (200 + 55 * 0.4), 0)"
    using getWindColor_bands by simp
  moreover have "getWindColor 0.8 = (255, Math_round (165 - 165 * 0.8), 0)"
    using getWindColor_bands by simp
  ultimately show ?thesis
    by (simp add: Math_round_def)
qed

text \<open>
  C10. \<^verbatim>\<open>getWindColor\<close> does not clamp the green channel to a byte: at speed \<open>1.2\<close> it
  is \<open>round (165 - 198) = -33\<close>, a negative number.
\<close>

theorem getWindColor_green_negative:
  "getWindColor 1.2 = (255, -33, 0) \<and> green (getWindColor 1.2) < 0"
  by (simp add: getWindColor_def green_def Math_round_def)

section \<open>Properties of the particle-state texture\<close>

lemma ceiling_sqrt_least:
  "real n \<le> real (m * m) \<Longrightarrow> nat \<lceil>sqrt (real n)\<rceil> \<le> m"
proof -
  assume "real n \<le> real (m * m)"
  then have "sqrt (real n) \<le> sqrt (real (m * m))"
    by (simp only: real_sqrt_le_iff)
  then have "sqrt (real n) \<le> real m"
    by simp
  then have "\<lceil>sqrt (real n)\<rceil> \<le> int m"
    by (simp add: ceiling_le_iff)
  then show ?thesis
    by (simp only: nat_le_iff)
qed

lemma ceiling_sqrt_covers:
  "n \<le> nat \<lceil>sqrt (real n)\<rceil> * nat \<lceil>sqrt (real n)\<rceil>"
proof -
  let ?r = "nat \<lceil>sqrt (real n)\<rceil>"
  have "\<lceil>0::real\<rceil> \<le> \<lceil>sqrt (real n)\<rceil>"
    by (rule ceiling_mono) simp
  then have nonneg: "0 \<le> \<lceil>sqrt (real n)\<rceil>"
    by (simp only: ceiling_zero)
  have "sqrt (real n) \<le> real_of_int \<lceil>sqrt (real n)\<rceil>"
    by (rule le_of_int_ceiling)
  also have "\<dots> = real ?r"
    using nonneg by simp
  finally have r: "sqrt (real n) \<le> real ?r" .
  have "sqrt (real n) * sqrt (real n) \<le> real ?r * real ?r"
    by (rule mult_mono [OF r r]) (simp_all only: of_nat_0_le_iff real_sqrt_ge_zero)
  then have "real n \<le> real (?r * ?r)"
    by simp
  then show ?thesis
    by (simp only: of_nat_le_iff)
qed

text \<open>
  C8. \<^verbatim>\<open>setNumParticles\<close> sets the internal particle count to the square of
  \<open>\<lceil>\<surd>numParticles\<rceil>\<close>, which is the least perfect square that is at least the request,
  and makes both particle-state textures square, of side \<open>\<lceil>\<surd>numParticles\<rceil>\<close>, with
  four bytes for each particle.
\<close>

theorem setNumParticles_square:
  assumes "1 \<le> numParticles"
  shows "let layer = fst (setNumParticles numParticles this rnd);
             side = nat \<lceil>sqrt (real numParticles)\<rceil>
         in particleStateResolution layer = side \<and>
            internal_numParticles layer = side * side \<and>
            numParticles \<le> internal_numParticles layer \<and>
            (\<forall>m. numParticles \<le> m * m \<longrightarrow> internal_numParticles layer \<le> m * m) \<and>
            tex_width (particleStateTexture0 layer) = side \<and>
            tex_height (particleStateTexture0 layer) = side \<and>
            tex_width (particleStateTexture1 layer) = side \<and>
            tex_height (particleStateTexture1 layer) = side \<and>
            length (tex_data (particleStateTexture0 layer)) = 4 * internal_numParticles layer \<and>
            length (tex_data (particleStateTexture1 layer)) = 4 * internal_numParticles layer"
proof -
  define side where "side = nat \<lceil>sqrt (real numParticles)\<rceil>"
  have least: "side * side \<le> m * m" if "numParticles \<le> m * m" for m
  proof -
    from that have "real numParticles \<le> real (m * m)"
      by (simp only: of_nat_le_iff)
    then have "side \<le> m"
      unfolding side_def by (rule ceiling_sqrt_least)
    then show ?thesis
      by (simp add: mult_le_mono)
  qed
  have covers: "numParticles \<le> side * side"
    unfolding side_def by (rule ceiling_sqrt_covers)
  show ?thesis
    using least covers
    by (simp add: side_def [symmetric] setNumParticles_def Let_def createDataTexture_def)
qed

lemma ceiling_sqrt_5000: "nat \<lceil>sqrt (real 5000)\<rceil> = 71"
proof -
  have "\<lceil>sqrt 5000\<rceil> = 71"
    by (rule ceiling_unique) (simp_all add: real_less_lsqrt real_le_lsqrt real_less_rsqrt)
  then show ?thesis
    by simp
qed

theorem setNumParticles_square_witness:
  "(1::nat) \<le> 5000 \<and>
   particleStateResolution (fst (setNumParticles 5000 fresh_layer (sconst 0))) = 71 \<and>
   internal_numParticles (fst (setNumParticles 5000 fresh_layer (sconst 0))) = 5041 \<and>
   (5000::nat) \<le> 72 * 72 \<and>
   internal_numParticles (fst (setNumParticles 5000 fresh_layer (sconst 0))) \<le> 72 * 72 \<and>
   tex_width (particleStateTexture0 (fst (setNumParticles 5000 fresh_layer (sconst 0)))) = 71"
proof -
  have h: "(1::nat) \<le> 5000"
    by simp
  show ?thesis
    using setNumParticles_square [OF h, of fresh_layer "sconst 0"]
    by (simp add: Let_def ceiling_sqrt_5000 del: of_nat_numeral)
qed

section \<open>Properties of the field synthesizer\<close>

lemma lonLoop_invariant:
  assumes "\<And>lo la. Q (windPointAt lo la)"
  shows "list_all Q windData \<Longrightarrow> pointCount = length windData \<Longrightarrow> pointCount \<le> safetyLimit \<Longrightarrow>
     (case lonLoop b lonStep la lon windData pointCount of
        Inl (Returned ws) \<Rightarrow> list_all Q ws \<and> length ws = safetyLimit
      | Inl NonFinite \<Rightarrow> True
      | Inr (ws, n) \<Rightarrow> list_all Q ws \<and> n = length ws \<and> n \<le> safetyLimit)"
proof (induction b lonStep la lon windData pointCount rule: lonLoop.induct)
  case (1 b lonStep la lon windData pointCount)
  show ?case
  proof (cases "js_le lon (east b)")
    case False
    then show ?thesis using "1.prems" by (simp add: lonLoop.simps)
  next
    case guard: True
    show ?thesis
    proof (cases "pointCount \<ge> safetyLimit")
      case True
      then show ?thesis using guard "1.prems" by (simp add: lonLoop.simps)
    next
      case below: False
      show ?thesis
      proof (cases lon)
        case (Fin lo)
        have "case lonLoop b lonStep la (js_add lon lonStep) (windData @ [windPointAt lo la])
                (pointCount + 1) of
            Inl (Returned ws) \<Rightarrow> list_all Q ws \<and> length ws = safetyLimit
          | Inl NonFinite \<Rightarrow> True
          | Inr (ws, n) \<Rightarrow> list_all Q ws \<and> n = length ws \<and> n \<le> safetyLimit"
          using guard below Fin "1.prems" assms
          by (intro "1.IH") simp_all
        then show ?thesis
          using guard below Fin by (subst lonLoop.simps) simp
      qed (use guard below in \<open>simp_all add: lonLoop.simps\<close>)
    qed
  qed
qed

lemma latLoop_invariant:
  assumes Q: "\<And>lo la. Q (windPointAt lo la)"
    and res: "latLoop b latStep lonStep lt windData pointCount = Some r"
  shows "list_all Q windData \<Longrightarrow> pointCount = length windData \<Longrightarrow> pointCount \<le> safetyLimit \<Longrightarrow>
    (case r of Returned ws \<Rightarrow> list_all Q ws \<and> length ws \<le> safetyLimit | NonFinite \<Rightarrow> True)"
  using res
proof (induction rule: latLoop.raw_induct [rotated 1, consumes 1, case_names step])
  case (step latLoop' b latStep lonStep lt windData pointCount r)
  note inner = lonLoop_invariant [of Q windData pointCount b lonStep _ "Fin (west b)", OF Q step.prems]
  show ?case
  proof (cases "js_le lt (north b)")
    case False
    then show ?thesis using step.prems step.hyps by auto
  next
    case guard: True
    show ?thesis
    proof (cases lt)
      case (Fin la)
      show ?thesis
      proof (cases "lonLoop b lonStep la (Fin (west b)) windData pointCount")
        case (Inl res)
        then show ?thesis
          using guard Fin step.hyps inner [of la] by (auto split: outcome.splits)
      next
        case (Inr st)
        obtain ws n where st: "st = (ws, n)" by (cases st)
        have "latLoop' b latStep lonStep (js_add lt latStep) ws n = Some r"
          using guard Fin Inr st step.hyps by simp
        moreover have "list_all Q ws" "n = length ws" "n \<le> safetyLimit"
          using inner [of la] Inr st by simp_all
        ultimately show ?thesis
          by (rule step.IH)
      qed
    qed (use guard step.hyps in auto)
  qed
qed

lemma generateMockWindData_invariant:
  assumes "\<And>lo la. Q (windPointAt lo la)"
    and "generateMockWindData b density = Some (Returned ws)"
  shows "list_all Q ws \<and> length ws \<le> safetyLimit"
  using latLoop_invariant [of Q b _ _ "Fin (south b)" "[]" 0 "Returned ws", OF assms(1)] assms(2)
  by (simp add: generateMockWindData_def Let_def)

text \<open>Only \<^verbatim>\<open>-Infinity\<close> passes a guard without being finite, and no loop variable takes it.\<close>

lemma js_add_not_NegInfinity:
  "v \<noteq> NegInfinity \<Longrightarrow> step \<noteq> NegInfinity \<Longrightarrow> js_add v step \<noteq> NegInfinity"
  by (cases v; cases step) simp_all

lemma lonLoop_finite:
  "lon \<noteq> NegInfinity \<Longrightarrow> (js_le lon (east b) \<Longrightarrow> lonStep \<noteq> NegInfinity) \<Longrightarrow>
   lonLoop b lonStep la lon windData pointCount \<noteq> Inl NonFinite"
proof (induction b lonStep la lon windData pointCount rule: lonLoop.induct)
  case (1 b lonStep la lon windData pointCount)
  show ?case
  proof (cases "js_le lon (east b) \<and> \<not> pointCount \<ge> safetyLimit")
    case False
    then show ?thesis by (auto simp add: lonLoop.simps)
  next
    case True
    then obtain lo where lo: "lon = Fin lo"
      using "1.prems"(1) by (cases lon) simp_all
    have "lonLoop b lonStep la (js_add lon lonStep) (windData @ [windPointAt lo la])
            (pointCount + 1) \<noteq> Inl NonFinite"
      using True lo "1.prems" by (intro "1.IH" js_add_not_NegInfinity) simp_all
    then show ?thesis
      using True lo by (subst lonLoop.simps) simp
  qed
qed

lemma latLoop_finite:
  assumes "latLoop b latStep lonStep lt windData pointCount = Some r"
  shows "lt \<noteq> NegInfinity \<Longrightarrow> (js_le lt (north b) \<Longrightarrow> latStep \<noteq> NegInfinity) \<Longrightarrow>
     (west b \<le> east b \<Longrightarrow> lonStep \<noteq> NegInfinity) \<Longrightarrow> r \<noteq> NonFinite"
  using assms
proof (induction rule: latLoop.raw_induct [rotated 1, consumes 1, case_names step])
  case (step latLoop' b latStep lonStep lt windData pointCount r)
  show ?case
  proof (cases "js_le lt (north b)")
    case False
    then show ?thesis using step.hyps by auto
  next
    case guard: True
    then obtain la where la: "lt = Fin la"
      using step.prems(1) by (cases lt) simp_all
    have inner: "lonLoop b lonStep la (Fin (west b)) windData pointCount \<noteq> Inl NonFinite"
      using step.prems(3) by (intro lonLoop_finite) simp_all
    show ?thesis
    proof (cases "lonLoop b lonStep la (Fin (west b)) windData pointCount")
      case (Inl res)
      then show ?thesis
        using guard la step.hyps inner by auto
    next
      case (Inr st)
      obtain ws n where st: "st = (ws, n)" by (cases st)
      have call: "latLoop' b latStep lonStep (js_add lt latStep) ws n = Some r"
        using guard la Inr st step.hyps by simp
      have "js_add lt latStep \<noteq> NegInfinity"
        using step.prems(1,2) guard by (intro js_add_not_NegInfinity) simp_all
      moreover have "latStep \<noteq> NegInfinity"
        using step.prems(2) guard by simp
      ultimately show ?thesis
        using step.IH [OF call] step.prems(3) by blast
    qed
  qed
qed

lemma generateMockWindData_finite:
  "generateMockWindData b density \<noteq> Some NonFinite"
proof
  assume "generateMockWindData b density = Some NonFinite"
  then have "latLoop b (js_div (north b - south b) (min density 30))
      (js_div (east b - west b) (min density 30)) (Fin (south b)) [] 0 = Some NonFinite"
    by (simp add: generateMockWindData_def Let_def)
  then have "NonFinite \<noteq> NonFinite"
    by (rule latLoop_finite) (auto simp add: js_div_def split: if_splits)
  then show False
    by simp
qed


lemma lonLoop_zero_step:
  "lo \<le> east b \<Longrightarrow> pointCount \<le> safetyLimit \<Longrightarrow>
   lonLoop b (Fin 0) la (Fin lo) windData pointCount =
     Inl (Returned (windData @ replicate (safetyLimit - pointCount) (windPointAt lo la)))"
proof (induction "safetyLimit - pointCount" arbitrary: windData pointCount)
  case 0
  then show ?case
    by (subst lonLoop.simps) simp
next
  case (Suc k)
  then have k: "k = safetyLimit - (pointCount + 1)" and below: "\<not> safetyLimit \<le> pointCount"
      and next_le: "pointCount + 1 \<le> safetyLimit"
    by simp_all
  have "lonLoop b (Fin 0) la (Fin lo) windData pointCount =
        lonLoop b (Fin 0) la (Fin lo) (windData @ [windPointAt lo la]) (pointCount + 1)"
    using Suc.prems(1) below by (subst lonLoop.simps) simp
  also have "\<dots> = Inl (Returned ((windData @ [windPointAt lo la]) @
      replicate (safetyLimit - (pointCount + 1)) (windPointAt lo la)))"
    using k Suc.prems(1) next_le by (rule Suc.hyps(1))
  also have "(windData @ [windPointAt lo la]) @
      replicate (safetyLimit - (pointCount + 1)) (windPointAt lo la) =
      windData @ replicate (safetyLimit - pointCount) (windPointAt lo la)"
    using Suc.hyps(2) [symmetric] by (simp add: replicate_append_same)
  finally show ?case .
qed

lemma generateMockWindData_point_bounds:
  assumes "west b = east b" and "south b = north b" and "min density 30 \<noteq> 0"
  shows "generateMockWindData b density =
    Some (Returned (replicate safetyLimit (windPointAt (west b) (south b))))"
proof -
  have "lonLoop b (Fin 0) (south b) (Fin (west b)) [] 0 =
      Inl (Returned ([] @ replicate (safetyLimit - 0) (windPointAt (west b) (south b))))"
    using assms(1) by (intro lonLoop_zero_step) simp_all
  then show ?thesis
    using assms by (simp add: generateMockWindData_def Let_def js_div_def latLoop.simps)
qed

lemma windPointAt_speed_range:
  "0.2 \<le> WindPoint.speed (windPointAt lo la) \<and> WindPoint.speed (windPointAt lo la) \<le> 1.0 \<and>
   (snd (WindPoint.position (windPointAt lo la)) > 14.0 \<longrightarrow>
      0.3 \<le> WindPoint.speed (windPointAt lo la) \<and> WindPoint.speed (windPointAt lo la) \<le> 0.6)"
proof -
  define n where "n = \<bar>sin (la * 0.1 + lo * 0.2)\<bar>"
  define s where "s = \<bar>sin (la * 0.2) + sin (lo * 0.3)\<bar>"
  have n: "0 \<le> n" "n \<le> 1"
    unfolding n_def by (rule abs_ge_zero, rule abs_sin_le_one)
  have "s \<le> \<bar>sin (la * 0.2)\<bar> + \<bar>sin (lo * 0.3)\<bar>"
    unfolding s_def by (rule abs_triangle_ineq)
  also have "\<dots> \<le> 1 + 1"
    by (intro add_mono abs_sin_le_one)
  finally have s: "0 \<le> s" "s \<le> 2"
    by (simp_all add: s_def)
  have speed: "WindPoint.speed (windPointAt lo la) = (if la > 14 then 0.3 + 0.3 * n else 0.2 + 0.4 * s)"
    and pos: "snd (WindPoint.position (windPointAt lo la)) = la"
    by (simp_all add: windPointAt_def Let_def n_def s_def)
  show ?thesis
    unfolding speed pos using n s by auto
qed

text \<open>
  C9. Every sample of a field that \<^verbatim>\<open>generateMockWindData\<close> returns has its speed in
  \<open>[0.2, 1.0]\<close>: in \<open>[0.3, 0.6]\<close> when its latitude is above 14 (the northern regime),
  in \<open>[0.2, 1.0]\<close> otherwise. These bounds lie inside \<open>[0, 1.2]\<close>.
\<close>

theorem generateMockWindData_speed_range:
  assumes "generateMockWindData b density = Some (Returned ws)" and "p \<in> set ws"
  shows "0.2 \<le> WindPoint.speed p \<and> WindPoint.speed p \<le> 1.0 \<and>
    (snd (WindPoint.position p) > 14.0 \<longrightarrow> 0.3 \<le> WindPoint.speed p \<and> WindPoint.speed p \<le> 0.6) \<and>
    (\<not> snd (WindPoint.position p) > 14.0 \<longrightarrow> 0.2 \<le> WindPoint.speed p \<and> WindPoint.speed p \<le> 1.0)"
proof -
  let ?Q = "\<lambda>p. 0.2 \<le> WindPoint.speed p \<and> WindPoint.speed p \<le> 1.0 \<and>
    (snd (WindPoint.position p) > 14.0 \<longrightarrow> 0.3 \<le> WindPoint.speed p \<and> WindPoint.speed p \<le> 0.6)"
  have "list_all ?Q ws \<and> length ws \<le> safetyLimit"
    using windPointAt_speed_range assms(1) by (rule generateMockWindData_invariant [where Q = ?Q])
  then have "?Q p"
    using assms(2) by (simp add: list_all_iff)
  then show ?thesis
    by simp
qed

lemma generateMockWindData_unit_square:
  "generateMockWindData \<lparr>west = 100, south = 14, east = 101, north = 15\<rparr> 1 =
     Some (Returned [windPointAt 100 14, windPointAt 101 14, windPointAt 100 15, windPointAt 101 15])"
  by (simp add: generateMockWindData_def js_div_def latLoop.simps lonLoop.simps safetyLimit_def)

theorem generateMockWindData_speed_range_witness:
  "generateMockWindData \<lparr>west = 100, south = 14, east = 101, north = 15\<rparr> 1 =
     Some (Returned [windPointAt 100 14, windPointAt 101 14, windPointAt 100 15, windPointAt 101 15]) \<and>
   windPointAt 101 15 \<in> set [windPointAt 100 14, windPointAt 101 14, windPointAt 100 15, windPointAt 101 15] \<and>
   snd (WindPoint.position (windPointAt 101 15)) > 14.0 \<and>
   0.3 \<le> WindPoint.speed (windPointAt 101 15) \<and> WindPoint.speed (windPointAt 101 15) \<le> 0.6 \<and>
   windPointAt 100 14 \<in> set [windPointAt 100 14, windPointAt 101 14, windPointAt 100 15, windPointAt 101 15] \<and>
   \<not> snd (WindPoint.position (windPointAt 100 14)) > 14.0 \<and>
   0.2 \<le> WindPoint.speed (windPointAt 100 14) \<and> WindPoint.speed (windPointAt 100 14) \<le> 1.0"
proof -
  have north_pos: "snd (WindPoint.position (windPointAt 101 15)) > 14.0"
    and south_pos: "\<not> snd (WindPoint.position (windPointAt 100 14)) > 14.0"
    by (simp_all add: windPointAt_def)
  have m1: "windPointAt 101 15 \<in>
      set [windPointAt 100 14, windPointAt 101 14, windPointAt 100 15, windPointAt 101 15]"
    and m2: "windPointAt 100 14 \<in>
      set [windPointAt 100 14, windPointAt 101 14, windPointAt 100 15, windPointAt 101 15]"
    by simp_all
  show ?thesis
    using generateMockWindData_speed_range [OF generateMockWindData_unit_square m1]
      generateMockWindData_speed_range [OF generateMockWindData_unit_square m2]
      north_pos south_pos generateMockWindData_unit_square m1 m2
    by blast
qed

lemma lonLoop_count_mono:
  "lonLoop b lonStep la lon windData pointCount = Inr (ws, n) \<Longrightarrow> pointCount \<le> n"
proof (induction b lonStep la lon windData pointCount rule: lonLoop.induct)
  case (1 b lonStep la lon windData pointCount)
  show ?case
  proof (cases "js_le lon (east b) \<and> \<not> pointCount \<ge> safetyLimit")
    case False
    then show ?thesis
      using "1.prems" by (subst (asm) lonLoop.simps) (auto split: if_splits)
  next
    case True
    then obtain lo where lo: "lon = Fin lo"
      using "1.prems" by (subst (asm) lonLoop.simps) (cases lon; simp)
    have "lonLoop b lonStep la (js_add lon lonStep) (windData @ [windPointAt lo la])
        (pointCount + 1) = Inr (ws, n)"
      using "1.prems" True lo by (subst (asm) lonLoop.simps) simp
    then have "pointCount + 1 \<le> n"
      using True lo by (intro "1.IH") simp_all
    then show ?thesis
      by simp
  qed
qed

lemma lonLoop_progress:
  assumes "lo \<le> east b" and "lonLoop b lonStep la (Fin lo) windData pointCount = Inr (ws, n)"
  shows "pointCount < n"
proof -
  have below: "\<not> pointCount \<ge> safetyLimit"
    using assms by (subst (asm) lonLoop.simps) (auto split: if_splits)
  then have "lonLoop b lonStep la (js_add (Fin lo) lonStep) (windData @ [windPointAt lo la])
      (pointCount + 1) = Inr (ws, n)"
    using assms by (subst (asm) lonLoop.simps) simp
  then have "pointCount + 1 \<le> n"
    by (rule lonLoop_count_mono)
  then show ?thesis
    by simp
qed

text \<open>When the west is not beyond the east every row adds a sample, and the cap ends the call.\<close>

lemma latLoop_returns_rows:
  assumes "west b \<le> east b"
  shows "\<exists>r. latLoop b latStep lonStep lt windData pointCount = Some r"
proof (induction "safetyLimit - pointCount" arbitrary: lt windData pointCount rule: less_induct)
  case less
  show ?case
  proof (cases "js_le lt (north b)")
    case False
    then show ?thesis
      by (subst latLoop.simps) simp
  next
    case guard: True
    show ?thesis
    proof (cases lt)
      case (Fin la)
      show ?thesis
      proof (cases "lonLoop b lonStep la (Fin (west b)) windData pointCount")
        case (Inl res)
        then show ?thesis
          using guard Fin by (subst latLoop.simps) simp
      next
        case (Inr st)
        obtain ws n where st: "st = (ws, n)"
          by (cases st)
        have "pointCount < n"
          using assms Inr unfolding st by (rule lonLoop_progress)
        moreover have "pointCount < safetyLimit"
          using Inr by (subst (asm) lonLoop.simps) (use assms in \<open>auto split: if_splits\<close>)
        ultimately have "safetyLimit - n < safetyLimit - pointCount"
          by linarith
        then have "\<exists>r. latLoop b latStep lonStep (js_add lt latStep) ws n = Some r"
          by (rule less.hyps)
        then show ?thesis
          using guard Fin Inr st by (subst latLoop.simps) simp
      qed
    qed (use guard in \<open>subst latLoop.simps, simp\<close>)+
  qed
qed

text \<open>When the latitude grows by a positive step it passes the north after finitely many rows.\<close>

lemma latLoop_returns_climbing:
  assumes "0 < s" and "north b - la < real k * s"
  shows "\<exists>r. latLoop b (Fin s) lonStep (Fin la) windData pointCount = Some r"
  using assms(2)
proof (induction k arbitrary: la windData pointCount)
  case 0
  then show ?case
    by (subst latLoop.simps) simp
next
  case (Suc k)
  show ?case
  proof (cases "lonLoop b lonStep la (Fin (west b)) windData pointCount")
    case (Inl res)
    then show ?thesis
      by (subst latLoop.simps) simp
  next
    case (Inr st)
    obtain ws n where st: "st = (ws, n)"
      by (cases st)
    have "north b - (la + s) < real k * s"
      using Suc.prems by (simp add: algebra_simps)
    then have "\<exists>r. latLoop b (Fin s) lonStep (Fin (la + s)) ws n = Some r"
      by (rule Suc.IH)
    then show ?thesis
      using Inr st by (subst latLoop.simps) simp
  qed
qed

lemma generateMockWindData_returns:
  assumes "\<not> (east b < west b \<and> south b \<le> north b \<and> min density 30 \<noteq> 0 \<and>
    (north b - south b) / min density 30 \<le> 0)"
  shows "\<exists>ws. generateMockWindData b density = Some (Returned ws)"
proof -
  let ?latStep = "js_div (north b - south b) (min density 30)"
  let ?lonStep = "js_div (east b - west b) (min density 30)"
  have "\<exists>r. latLoop b ?latStep ?lonStep (Fin (south b)) [] 0 = Some r"
  proof (cases "west b \<le> east b")
    case True
    then show ?thesis
      by (rule latLoop_returns_rows)
  next
    case empty_rows: False
    then have row: "lonLoop b ?lonStep la (Fin (west b)) [] 0 = Inr ([], 0)" for la
      by (subst lonLoop.simps) simp
    show ?thesis
    proof (cases "south b \<le> north b")
      case False
      then show ?thesis
        by (subst latLoop.simps) simp
    next
      case True
      show ?thesis
      proof (cases "min density 30 = 0")
        case zero: True
        then have "?latStep = PosInfinity \<or> ?latStep = NaN"
          using True by (simp add: js_div_def)
        then have "\<not> js_le (js_add (Fin (south b)) ?latStep) (north b)"
          by auto
        then have "latLoop b ?latStep ?lonStep (js_add (Fin (south b)) ?latStep) [] 0 =
            Some (Returned [])"
          by (subst latLoop.simps) simp
        then show ?thesis
          using True row by (subst latLoop.simps) simp
      next
        case False
        define s where "s = (north b - south b) / min density 30"
        have s: "0 < s" and step: "?latStep = Fin s"
          using assms empty_rows True False by (simp_all add: s_def js_div_def)
        obtain k where "north b - south b < real k * s"
          using ex_less_of_nat_mult [OF s] by blast
        with s show ?thesis
          unfolding step by (rule latLoop_returns_climbing)
      qed
    qed
  qed
  then obtain r where r: "generateMockWindData b density = Some r"
    by (auto simp add: generateMockWindData_def Let_def)
  then show ?thesis
    using generateMockWindData_finite [of b density] by (cases r) simp_all
qed

text \<open>A call that never returns: no row has a sample and the latitude does not move.\<close>

lemma latLoop_never_returns:
  assumes "latLoop b latStep lonStep lt windData pointCount = Some r"
  shows "east b < west b \<Longrightarrow> latStep = Fin s \<Longrightarrow> s \<le> 0 \<Longrightarrow> lt = Fin la \<Longrightarrow> la \<le> north b \<Longrightarrow> False"
  using assms
proof (induction arbitrary: la rule: latLoop.raw_induct [rotated 1, consumes 1, case_names step])
  case (step latLoop' b latStep lonStep lt windData pointCount r)
  have "lonLoop b lonStep la (Fin (west b)) windData pointCount = Inr (windData, pointCount)"
    using step.prems(1) by (subst lonLoop.simps) simp
  then have call: "latLoop' b latStep lonStep (Fin (la + s)) windData pointCount = Some r"
    using step.hyps step.prems by simp
  have "la + s \<le> north b"
    using step.prems by simp
  then show ?case
    using step.IH [OF call] step.prems by blast
qed

lemma generateMockWindData_diverges:
  assumes "east b < west b" and "south b \<le> north b" and "min density 30 \<noteq> 0"
    and "(north b - south b) / min density 30 \<le> 0"
  shows "generateMockWindData b density = None"
proof (rule ccontr)
  assume "generateMockWindData b density \<noteq> None"
  then obtain r where "latLoop b (Fin ((north b - south b) / min density 30))
      (js_div (east b - west b) (min density 30)) (Fin (south b)) [] 0 = Some r"
    using assms(3) by (auto simp add: generateMockWindData_def Let_def js_div_def)
  then show False
    using assms(1) refl assms(4) refl assms(2) by (rule latLoop_never_returns)
qed

text \<open>
  C2. Whatever the bounds and the density, a field that \<^verbatim>\<open>generateMockWindData\<close>
  returns has at most 500 samples, and the call never comes to a sample that is not
  finite. When the cap is struck (the guard of the inner loop holds and 500 samples have
  been counted) the inner loop returns the list as it is then, and the outer loop hands
  that list on as the result. The call does return a field, except in one case, where it
  runs forever: the west is beyond the east, so that no row has a sample, the south is not
  beyond the north, and the step of the latitude is finite and not positive.
\<close>

theorem generateMockWindData_cap:
  "(\<forall>ws. generateMockWindData b density = Some (Returned ws) \<longrightarrow> length ws \<le> 500) \<and>
   generateMockWindData b density \<noteq> Some NonFinite \<and>
   (js_le lon (east b) \<and> 500 \<le> pointCount \<longrightarrow>
      lonLoop b lonStep la lon windData pointCount = Inl (Returned windData)) \<and>
   (la \<le> north b \<and> lonLoop b lonStep la (Fin (west b)) windData pointCount = Inl r \<longrightarrow>
      latLoop b latStep lonStep (Fin la) windData pointCount = Some r) \<and>
   (generateMockWindData b density = None) =
     (east b < west b \<and> south b \<le> north b \<and> min density 30 \<noteq> 0 \<and>
      (north b - south b) / min density 30 \<le> 0)"
proof -
  have "length ws \<le> 500" if "generateMockWindData b density = Some (Returned ws)" for ws
    using generateMockWindData_invariant [of "\<lambda>_. True" b density ws] that
    by (simp add: safetyLimit_def)
  moreover have "lonLoop b lonStep la lon windData pointCount = Inl (Returned windData)"
    if "js_le lon (east b)" "500 \<le> pointCount"
    using that by (subst lonLoop.simps) (simp add: safetyLimit_def)
  moreover have "latLoop b latStep lonStep (Fin la) windData pointCount = Some r"
    if "la \<le> north b" "lonLoop b lonStep la (Fin (west b)) windData pointCount = Inl r"
    using that by (subst latLoop.simps) simp
  moreover have "(generateMockWindData b density = None) =
     (east b < west b \<and> south b \<le> north b \<and> min density 30 \<noteq> 0 \<and>
      (north b - south b) / min density 30 \<le> 0)"
  proof
    assume "generateMockWindData b density = None"
    then show "east b < west b \<and> south b \<le> north b \<and> min density 30 \<noteq> 0 \<and>
        (north b - south b) / min density 30 \<le> 0"
      using generateMockWindData_returns [of b density] by fastforce
  next
    assume "east b < west b \<and> south b \<le> north b \<and> min density 30 \<noteq> 0 \<and>
        (north b - south b) / min density 30 \<le> 0"
    then show "generateMockWindData b density = None"
      by (intro generateMockWindData_diverges) simp_all
  qed
  ultimately show ?thesis
    using generateMockWindData_finite by blast
qed

theorem generateMockWindData_cap_witness:
  "generateMockWindData \<lparr>west = 100, south = 14, east = 100, north = 14\<rparr> 1000 =
     Some (Returned (replicate 500 (windPointAt 100 14))) \<and>
   length (replicate 500 (windPointAt 100 14)) \<le> 500 \<and>
   js_le (Fin 100) (east \<lparr>west = 100, south = 14, east = 100, north = 14\<rparr>) \<and>
   (500::nat) \<le> 500 \<and>
   lonLoop \<lparr>west = 100, south = 14, east = 100, north = 14\<rparr> (Fin 0) 14 (Fin 100)
       (replicate 500 (windPointAt 100 14)) 500 =
     Inl (Returned (replicate 500 (windPointAt 100 14))) \<and>
   latLoop \<lparr>west = 100, south = 14, east = 100, north = 14\<rparr> (Fin 0) (Fin 0) (Fin 14)
       (replicate 500 (windPointAt 100 14)) 500 =
     Some (Returned (replicate 500 (windPointAt 100 14))) \<and>
   generateMockWindData \<lparr>west = 10, south = 5, east = 5, north = 5\<rparr> 15 = None"
proof -
  let ?b = "\<lparr>west = 100, south = 14, east = 100, north = 14\<rparr>"
  have run: "generateMockWindData ?b 1000 = Some (Returned (replicate 500 (windPointAt 100 14)))"
    using generateMockWindData_point_bounds [of ?b 1000] by (simp add: safetyLimit_def)
  have guard: "js_le (Fin 100) (east ?b)" and cap: "(500::nat) \<le> 500" and row: "(14::real) \<le> north ?b"
    by simp_all
  note c = generateMockWindData_cap [of ?b 1000 "Fin 100" 500 "Fin 0" 14
      "replicate 500 (windPointAt 100 14)" "Returned (replicate 500 (windPointAt 100 14))" "Fin 0"]
  have inner: "lonLoop ?b (Fin 0) 14 (Fin 100) (replicate 500 (windPointAt 100 14)) 500 =
      Inl (Returned (replicate 500 (windPointAt 100 14)))"
    using c guard cap by blast
  have outer: "latLoop ?b (Fin 0) (Fin 0) (Fin 14) (replicate 500 (windPointAt 100 14)) 500 =
      Some (Returned (replicate 500 (windPointAt 100 14)))"
    using c row inner by simp
  have "generateMockWindData \<lparr>west = 10, south = 5, east = 5, north = 5\<rparr> 15 = None"
    using generateMockWindData_cap [where b = "\<lparr>west = 10, south = 5, east = 5, north = 5\<rparr>"
        and density = 15, THEN conjunct2, THEN conjunct2, THEN conjunct2, THEN conjunct2]
    by simp
  then show ?thesis
    using run inner outer guard by simp
qed

text \<open>
  C6, as the program has it. With the bounds \<open>west = east = 10\<close>, \<open>south = north = 5\<close>
  and density 15 both steps are \<open>0 / 15 = 0\<close>: nothing is divided by zero, the
  longitude never passes the eastern bound, and the inner loop of the first row runs until
  the cap ends it. The call returns 500 copies of the sample at \<open>(10, 5)\<close>.
\<close>

theorem generateMockWindData_zero_size:
  "generateMockWindData \<lparr>west = 10, south = 5, east = 10, north = 5\<rparr> 15 =
     Some (Returned (replicate 500 (windPointAt 10 5)))"
  using generateMockWindData_point_bounds [of "\<lparr>west = 10, south = 5, east = 10, north = 5\<rparr>" 15]
  by (simp add: safetyLimit_def)

text \<open>
  So the field returned for these bounds is neither empty nor a single sample.
\<close>

theorem generateMockWindData_zero_size_counterexample:
  "\<not> (\<exists>ws. generateMockWindData \<lparr>west = 10, south = 5, east = 10, north = 5\<rparr> 15 =
        Some (Returned ws) \<and> length ws \<le> 1)"
  using generateMockWindData_point_bounds [of "\<lparr>west = 10, south = 5, east = 10, north = 5\<rparr>" 15]
  by (auto simp add: safetyLimit_def)

section \<open>Properties of double-precision arithmetic\<close>

lemma round_half_even_of_int: "round_half_even (of_int n) = n"
  by (simp add: round_half_even_def)

lemma round_half_even_ge: "of_int k \<le> v \<Longrightarrow> k \<le> round_half_even v"
proof -
  assume "of_int k \<le> v"
  then have "k \<le> \<lfloor>v\<rfloor>" by (simp add: le_floor_iff)
  then show ?thesis by (auto simp add: round_half_even_def Let_def)
qed

lemma round_half_even_le: "v \<le> of_int k \<Longrightarrow> round_half_even v \<le> k"
proof -
  assume v: "v \<le> of_int k"
  then have f: "\<lfloor>v\<rfloor> \<le> k" by (simp add: floor_le_iff)
  show ?thesis
  proof (cases "\<lfloor>v\<rfloor> = k")
    case True
    then have "v = of_int k" using v by linarith
    then show ?thesis by (simp add: round_half_even_of_int)
  next
    case False
    then have "\<lfloor>v\<rfloor> + 1 \<le> k" using f by simp
    then show ?thesis by (auto simp add: round_half_even_def Let_def)
  qed
qed

lemma round_half_even_down:
  "of_int n \<le> v \<Longrightarrow> v < of_int n + 1 / 2 \<Longrightarrow> round_half_even v = n"
proof -
  assume a: "of_int n \<le> v" "v < of_int n + 1 / 2"
  then have "\<lfloor>v\<rfloor> = n" by (simp add: floor_eq_iff)
  then show ?thesis using a by (simp add: round_half_even_def)
qed

text \<open>The exponent of a number between two powers of two.\<close>

lemma floor_log2_between:
  assumes "2 powi k \<le> \<bar>v\<bar>" "\<bar>v\<bar> < 2 powi (k + 1)"
  shows "\<lfloor>log 2 \<bar>v\<bar>\<rfloor> = k"
proof -
  have pos: "0 < \<bar>v\<bar>" using assms(1) by (smt (verit) zero_less_power_int)
  show ?thesis
    using assms pos powr_real_of_int' [of 2 k] powr_real_of_int' [of 2 "k + 1"]
    by (simp add: floor_log_eq_powr_iff add.commute)
qed

lemma double_binade:
  assumes "2 powi k \<le> \<bar>v\<bar>" "\<bar>v\<bar> < 2 powi (k + 1)" "- 1022 \<le> k"
  shows "double v =
     (let r = of_int (round_half_even (v / 2 powi (k - 52))) * 2 powi (k - 52)
      in if 2 ^ 1024 \<le> r then PosInfinity
         else if r \<le> - (2 ^ 1024) then NegInfinity
         else Fin r)"
proof -
  have "v \<noteq> 0" using assms(1) by (smt (verit) zero_less_power_int)
  moreover have "max \<lfloor>log 2 \<bar>v\<bar>\<rfloor> (- 1022) = k"
    using floor_log2_between [OF assms(1,2)] assms(3) by simp
  ultimately show ?thesis
    by (simp add: double_def Let_def)
qed

lemma abs_less_bound: "\<bar>v\<bar> < B \<Longrightarrow> \<not> B \<le> v \<and> \<not> v \<le> - B" for v B :: real
  by linarith

text \<open>A double is its own rounding.\<close>

lemma double_exact:
  assumes v: "v = of_int m * 2 powi j" and small: "\<bar>v\<bar> < 2 powi (j + 53)"
    and lo: "- 1074 \<le> j" and hi: "j \<le> 971"
  shows "double v = Fin v"
proof (cases "v = 0")
  case True
  then show ?thesis by (simp add: double_def)
next
  case False
  define e where "e = max \<lfloor>log 2 \<bar>v\<bar>\<rfloor> (- 1022)"
  have "log 2 \<bar>v\<bar> < of_int (j + 53)"
    using small False powr_real_of_int' [of 2 "j + 53"] by (simp add: log_less_iff)
  then have "\<lfloor>log 2 \<bar>v\<bar>\<rfloor> < j + 53"
    by (simp add: floor_less_iff)
  then have e: "e - 52 \<le> j"
    using lo by (simp add: e_def)
  define n where "n = nat (j - (e - 52))"
  have "(2::real) powi j = 2 powi (e - 52 + int n)"
    using e by (simp add: n_def)
  also have "\<dots> = 2 powi (e - 52) * 2 ^ n"
    by (simp add: power_int_add)
  finally have j: "(2::real) powi j = 2 powi (e - 52) * 2 ^ n" .
  have "v / 2 powi (e - 52) = of_int (m * 2 ^ n)"
    by (simp add: v j)
  then have "round_half_even (v / 2 powi (e - 52)) = m * 2 ^ n"
    by (simp only: round_half_even_of_int)
  then have r: "of_int (round_half_even (v / 2 powi (e - 52))) * 2 powi (e - 52) = v"
    by (simp add: v j)
  have "(2::real) powi (j + 53) \<le> 2 powi 1024"
    using hi by (intro power_int_increasing) simp_all
  then have "\<bar>v\<bar> < 2 ^ 1024"
    using small by simp
  then have "\<not> 2 ^ 1024 \<le> v \<and> \<not> v \<le> - (2 ^ 1024)"
    by (rule abs_less_bound)
  then show ?thesis
    using False r by (simp only: double_def Let_def e_def [symmetric] if_False)
qed

lemma double_of_int: "\<bar>m\<bar> < 2 ^ 53 \<Longrightarrow> double (of_int m) = Fin (of_int m)"
proof -
  assume "\<bar>m\<bar> < 2 ^ 53"
  then have "\<bar>real_of_int m\<bar> < 2 ^ 53"
    by (metis of_int_abs of_int_less_numeral_power_cancel_iff)
  then show ?thesis
    using double_exact [of "of_int m" m 0] by simp
qed

lemma double_numeral:
  "(numeral n :: int) < 2 ^ 53 \<Longrightarrow> double (numeral n) = Fin (numeral n)"
  "(numeral n :: int) < 2 ^ 53 \<Longrightarrow> double (- numeral n) = Fin (- numeral n)"
  using double_of_int [of "numeral n"] double_of_int [of "- numeral n"] by simp_all

lemma double_zero_one: "double 0 = Fin 0" "double 1 = Fin 1" "double (- 1) = Fin (- 1)"
  using double_of_int [of 0] double_of_int [of 1] double_of_int [of "- 1"] by simp_all

lemmas double_integer = double_numeral double_zero_one

text \<open>Rounding does not cross a multiple of the unit in the last place.\<close>

lemma double_between:
  assumes "2 powi k \<le> v" "v < 2 powi (k + 1)" "- 1022 \<le> k"
    and "of_int a * 2 powi (k - 52) \<le> v" "v \<le> of_int b * 2 powi (k - 52)"
    and "of_int b * 2 powi (k - 52) < (2::real) ^ 1024"
  shows "\<exists>r. double v = Fin r \<and> of_int a * 2 powi (k - 52) \<le> r \<and> r \<le> of_int b * 2 powi (k - 52)"
proof -
  let ?u = "(2::real) powi (k - 52)"
  have u: "0 < ?u" by simp
  have v: "0 < v" using assms(1) by (smt (verit) zero_less_power_int)
  let ?n = "round_half_even (v / ?u)"
  have "of_int a \<le> v / ?u" "v / ?u \<le> of_int b" "of_int (0::int) \<le> v / ?u"
    using assms(4,5) u v by (simp_all add: field_simps)
  then have n: "a \<le> ?n" "?n \<le> b" "0 \<le> ?n"
    by (simp_all only: round_half_even_ge round_half_even_le)
  then have r: "of_int a * ?u \<le> of_int ?n * ?u" "of_int ?n * ?u \<le> of_int b * ?u" "0 \<le> of_int ?n * ?u"
    using u by simp_all
  have "of_int ?n * ?u < 2 ^ 1024"
    using r(2) assms(6) by (rule le_less_trans)
  moreover have "\<not> of_int ?n * ?u \<le> - (2 ^ 1024)"
    using r(3) by (smt (verit) zero_less_power)
  ultimately have "double v = Fin (of_int ?n * ?u)"
    using double_binade [of k v] assms(1,2,3) v by (simp add: Let_def)
  then show ?thesis
    using r by simp
qed














lemma double_just_above_one:
  assumes "1 \<le> v" "v < 1 + 1 / 2 ^ 53"
  shows "double v = Fin 1"
proof -
  have "round_half_even (v / 2 powi (- 52)) = 2 ^ 52"
    using assms by (intro round_half_even_down) (simp_all add: power_int_minus field_simps)
  then show ?thesis
    using double_binade [of 0 v] assms by (simp add: Let_def power_int_minus)
qed




section \<open>Properties of the nearest-sample lookup\<close>




lemma closestScan_step:
  "closestScan lg lt (p # ps) c m =
     (if js_lt (computedSquaredDistance p lg lt) m
      then closestScan lg lt ps (Some p) (computedSquaredDistance p lg lt)
      else closestScan lg lt ps c m)"
  by (simp add: computedSquaredDistance_def Let_def)

lemma closestScanSqrt_step:
  "closestScanSqrt lg lt (p # ps) c m =
     (if js_lt (computedDistance p lg lt) m
      then closestScanSqrt lg lt ps (Some p) (computedDistance p lg lt)
      else closestScanSqrt lg lt ps c m)"
  by (simp add: computedDistance_def computedSquaredDistance_def Let_def)











lemma squaredDistance_nonneg: "0 \<le> squaredDistance p lg lt"
  by (simp add: squaredDistance_def)

lemma euclideanDistance_less_iff:
  "euclideanDistance p lg lt < euclideanDistance q lg lt \<longleftrightarrow>
     squaredDistance p lg lt < squaredDistance q lg lt"
  by (simp add: euclideanDistance_def)













text \<open>
  With rounding the sample returned need not be the nearest one. Seen from \<open>(100, 0)\<close>, the
  sample at \<open>(101, 2\<^sup>-\<^sup>3\<^sup>0)\<close> is farther than the one at \<open>(101, 0)\<close>, but the sum
  \<open>1 + 2\<^sup>-\<^sup>6\<^sup>0\<close> is rounded to 1: the two computed squared distances tie and the first sample
  of the scan is kept. And the two forms of the lookup need not agree: the squared distances
  1 and \<open>1 + 2\<^sup>-\<^sup>5\<^sup>2\<close> are different doubles, whose square roots are both rounded to 1.
\<close>

lemma near_tie_distances:
  "computedSquaredDistance (near_tie_samples ! 0) 100 0 = Fin 1"
  "computedSquaredDistance (near_tie_samples ! 1) 100 0 = Fin 1"
proof -
  have dy: "double (1 / 2 ^ 30) = Fin (1 / 2 ^ 30)"
    using double_exact [of "1 / 2 ^ 30" 1 "- 30"] by (simp add: power_int_minus field_simps)
  have dy2: "double (1 / 2 ^ 30 * (1 / 2 ^ 30)) = Fin (1 / 2 ^ 60)"
    using double_exact [of "1 / 2 ^ 60" 1 "- 60"] by (simp add: power_int_minus field_simps)
  have sum: "double (1 + 1 / 2 ^ 60) = Fin 1"
    by (rule double_just_above_one) simp_all
  show "computedSquaredDistance (near_tie_samples ! 0) 100 0 = Fin 1"
    using dy dy2 sum
    by (simp add: near_tie_samples_def computedSquaredDistance_def double_integer)
  show "computedSquaredDistance (near_tie_samples ! 1) 100 0 = Fin 1"
    by (simp add: near_tie_samples_def computedSquaredDistance_def double_integer)
qed

lemma near_tie:
  "closestWindPoint_squared near_tie_samples 100 0 = Some (near_tie_samples ! 0) \<and>
   euclideanDistance (near_tie_samples ! 1) 100 0 < euclideanDistance (near_tie_samples ! 0) 100 0"
proof -
  have "closestScan 100 0 [near_tie_samples ! 0, near_tie_samples ! 1]
      (Some (near_tie_samples ! 0)) (Fin Number_MAX_VALUE) = (Some (near_tie_samples ! 0), Fin 1)"
    by (simp add: closestScan_step near_tie_distances Number_MAX_VALUE_def
        del: closestScan.simps(2) One_nat_def)
  moreover have "near_tie_samples = [near_tie_samples ! 0, near_tie_samples ! 1]"
    by (simp add: near_tie_samples_def)
  ultimately have "closestWindPoint_squared near_tie_samples 100 0 = Some (near_tie_samples ! 0)"
    by (simp add: closestWindPoint_squared_def near_tie_samples_def del: closestScan.simps(2))
  moreover have "squaredDistance (near_tie_samples ! 1) 100 0 <
      squaredDistance (near_tie_samples ! 0) 100 0"
    by (simp add: near_tie_samples_def squaredDistance_def)
  ultimately show ?thesis
    by (simp only: euclideanDistance_less_iff)
qed

lemma near_root_tie_distances:
  "computedSquaredDistance (near_root_tie_samples ! 0) 100 0 = Fin (1 + 1 / 2 ^ 52)"
  "computedSquaredDistance (near_root_tie_samples ! 1) 100 0 = Fin 1"
  "computedDistance (near_root_tie_samples ! 0) 100 0 = Fin 1"
  "computedDistance (near_root_tie_samples ! 1) 100 0 = Fin 1"
proof -
  have dy: "double (1 / 2 ^ 26) = Fin (1 / 2 ^ 26)"
    using double_exact [of "1 / 2 ^ 26" 1 "- 26"] by (simp add: power_int_minus field_simps)
  have dy2: "double (1 / 2 ^ 26 * (1 / 2 ^ 26)) = Fin (1 / 2 ^ 52)"
    using double_exact [of "1 / 2 ^ 52" 1 "- 52"] by (simp add: power_int_minus field_simps)
  have sum: "double (1 + 1 / 2 ^ 52) = Fin (1 + 1 / 2 ^ 52)"
    using double_exact [of "1 + 1 / 2 ^ 52" "2 ^ 52 + 1" "- 52"]
    by (simp add: power_int_minus field_simps)
  have "sqrt (1 + 1 / 2 ^ 52) < 1 + 1 / 2 ^ 53"
    by (rule real_less_lsqrt) (simp_all add: power2_eq_square field_simps)
  moreover have "1 \<le> sqrt (1 + 1 / 2 ^ 52)"
    by simp
  ultimately have root: "double (sqrt (1 + 1 / 2 ^ 52)) = Fin 1"
    by (intro double_just_above_one)
  show first: "computedSquaredDistance (near_root_tie_samples ! 0) 100 0 = Fin (1 + 1 / 2 ^ 52)"
    using dy dy2 sum
    by (simp add: near_root_tie_samples_def computedSquaredDistance_def double_integer)
  show second: "computedSquaredDistance (near_root_tie_samples ! 1) 100 0 = Fin 1"
    by (simp add: near_root_tie_samples_def computedSquaredDistance_def double_integer)
  show "computedDistance (near_root_tie_samples ! 0) 100 0 = Fin 1"
    using root unfolding computedDistance_def first by simp
  show "computedDistance (near_root_tie_samples ! 1) 100 0 = Fin 1"
    unfolding computedDistance_def second by (simp add: double_integer)
qed

lemma near_root_tie:
  "closestWindPoint_sqrt near_root_tie_samples 100 0 = Some (near_root_tie_samples ! 0) \<and>
   closestWindPoint_squared near_root_tie_samples 100 0 = Some (near_root_tie_samples ! 1) \<and>
   euclideanDistance (near_root_tie_samples ! 1) 100 0 <
     euclideanDistance (near_root_tie_samples ! 0) 100 0"
proof -
  have samples: "near_root_tie_samples = [near_root_tie_samples ! 0, near_root_tie_samples ! 1]"
    by (simp add: near_root_tie_samples_def)
  have "closestScanSqrt 100 0 [near_root_tie_samples ! 0, near_root_tie_samples ! 1]
      None PosInfinity = (Some (near_root_tie_samples ! 0), Fin 1)"
    by (simp add: closestScanSqrt_step near_root_tie_distances
        del: closestScanSqrt.simps(2) One_nat_def)
  then have root: "closestWindPoint_sqrt near_root_tie_samples 100 0 =
      Some (near_root_tie_samples ! 0)"
    unfolding closestWindPoint_sqrt_def by (subst samples) simp
  have "closestScan 100 0 [near_root_tie_samples ! 0, near_root_tie_samples ! 1]
      (Some (near_root_tie_samples ! 0)) (Fin Number_MAX_VALUE) =
        (Some (near_root_tie_samples ! 1), Fin 1)"
    by (simp add: closestScan_step near_root_tie_distances Number_MAX_VALUE_def
        del: closestScan.simps(2) One_nat_def)
  moreover have "(case near_root_tie_samples of [] \<Rightarrow> None | w # _ \<Rightarrow> Some w) =
      Some (near_root_tie_samples ! 0)"
    by (simp add: near_root_tie_samples_def)
  ultimately have squared: "closestWindPoint_squared near_root_tie_samples 100 0 =
      Some (near_root_tie_samples ! 1)"
    unfolding closestWindPoint_squared_def by (subst samples) simp
  have "squaredDistance (near_root_tie_samples ! 1) 100 0 <
      squaredDistance (near_root_tie_samples ! 0) 100 0"
    by (simp add: near_root_tie_samples_def squaredDistance_def)
  then show ?thesis
    using root squared by (simp only: euclideanDistance_less_iff simp_thms)
qed

section \<open>Properties of the particle population\<close>

lemma Array_map_length: "length (fst (Array_map callback ps rnd)) = length ps"
  by (induction ps arbitrary: rnd) (simp_all add: split_beta Let_def)

lemma Array_map_throwing_length:
  "Array_map_throwing callback ps rnd = Inr (qs, rnd') \<Longrightarrow> length qs = length ps"
  by (induction ps arbitrary: rnd qs) (auto split: sum.splits)

lemma Array_map_throwing_returns:
  "(\<And>p r. \<exists>q r'. callback p r = Inr (q, r')) \<Longrightarrow>
   \<exists>qs rnd'. Array_map_throwing callback ps rnd = Inr (qs, rnd')"
proof (induction ps arbitrary: rnd)
  case Nil
  then show ?case by simp
next
  case (Cons p ps)
  from Cons.prems obtain q r' where q: "callback p rnd = Inr (q, r')"
    by blast
  from Cons.IH [OF Cons.prems] obtain qs r'' where "Array_map_throwing callback ps r' = Inr (qs, r'')"
    by blast
  then show ?case
    using q by simp
qed

lemma closestScan_Some:
  "fst (closestScan lg lt ps (Some c) m) \<noteq> None"
  by (induction ps arbitrary: c m) (simp_all add: Let_def)

lemma closestWindPoint_squared_Some:
  "windData \<noteq> [] \<Longrightarrow> \<exists>c. closestWindPoint_squared windData lg lt = Some c"
  using closestScan_Some [of lg lt windData "hd windData" "Fin Number_MAX_VALUE"]
  by (cases windData) (auto simp add: closestWindPoint_squared_def)

lemma updateWindParticle_returns:
  assumes "\<And>point. unproj point \<noteq> None"
  shows "\<exists>q r'. updateWindParticle windData width height unproj p r = Inr (q, r')"
proof -
  obtain lngLat where "unproj (shd r * width, shd (stl r) * height) = Some lngLat"
    using assms by blast
  then show ?thesis
    by (cases "closestWindPoint_sqrt windData (fst lngLat) (snd lngLat)")
      (simp_all add: updateWindParticle_def Let_def Math_random_def)
qed

lemma layerUpdateParticle_returns:
  assumes "windData \<noteq> []"
  shows "\<exists>q r'. layerUpdateParticle particleSpeed b windData p r = Inr (q, r')"
proof -
  obtain c where "closestWindPoint_squared windData
      (west b + shd r * (east b - west b)) (south b + shd (stl r) * (north b - south b)) = Some c"
    using closestWindPoint_squared_Some [OF assms] by blast
  then show ?thesis
    by (simp add: layerUpdateParticle_def Let_def Math_random_def split_beta)
qed

text \<open>Single steps of the callbacks on the example particles.\<close>

lemma young_particle_step:
  "updateWindParticle tied_samples 100 100 screen_unproject young_particle (sconst (1 / 2)) =
     Inr (young_particle\<lparr>x := 3, WindParticle.age := 1\<rparr>, sconst (1 / 2))"
  by (simp add: updateWindParticle_def young_particle_def Let_def)

text \<open>
  The lookups of the examples: at \<open>(50, 50)\<close> the two samples at \<open>(2, 0)\<close> are nearer than
  the one at \<open>(0, 0)\<close> (the roots of 4804 and of 5000 are rounded to numbers on either side
  of 70); at \<open>(1/2, 1/2)\<close> and at \<open>(100, 25)\<close> no operation rounds.
\<close>

lemma tied_samples_lookup_sqrt:
  "closestWindPoint_sqrt tied_samples 50 50 = Some (tied_samples ! 1)"
proof -
  have "sqrt 5000 \<le> 71"
    by (rule real_le_lsqrt) simp_all
  moreover have "141 / 2 \<le> sqrt 5000"
    by (rule real_le_rsqrt) (simp add: power2_eq_square)
  ultimately obtain r0 where r0: "double (sqrt 5000) = Fin r0" "141 / 2 \<le> r0"
    using double_between [of 6 "sqrt 5000" "141 * 2 ^ 45" "71 * 2 ^ 46"] by auto
  have "sqrt 4804 \<le> 70"
    by (rule real_le_lsqrt) simp_all
  moreover have "69 \<le> sqrt 4804"
    by (rule real_le_rsqrt) (simp add: power2_eq_square)
  ultimately obtain r1 where r1: "double (sqrt 4804) = Fin r1" "r1 \<le> 70"
    using double_between [of 6 "sqrt 4804" "69 * 2 ^ 46" "70 * 2 ^ 46"] by auto
  show ?thesis
    using r0 r1
    by (simp add: closestWindPoint_sqrt_def tied_samples_def double_integer)
qed

lemma tied_samples_lookup_squared:
  "closestWindPoint_squared tied_samples (1 / 2) (1 / 2) = Some (tied_samples ! 0)"
  "closestWindPoint_squared tied_samples 100 25 = Some (tied_samples ! 1)"
proof -
  have halves: "double (- (1 / 2)) = Fin (- (1 / 2))" "double (1 / 4) = Fin (1 / 4)"
    "double (1 / 2) = Fin (1 / 2)" "double (3 / 2) = Fin (3 / 2)" "double (9 / 4) = Fin (9 / 4)"
    "double (5 / 2) = Fin (5 / 2)"
    using double_exact [of "- (1 / 2)" "- 1" "- 1"] double_exact [of "1 / 4" 1 "- 2"]
      double_exact [of "1 / 2" 1 "- 1"] double_exact [of "3 / 2" 3 "- 1"]
      double_exact [of "9 / 4" 9 "- 2"] double_exact [of "5 / 2" 5 "- 1"]
    by (simp_all add: power_int_minus)
  show "closestWindPoint_squared tied_samples (1 / 2) (1 / 2) = Some (tied_samples ! 0)"
    using halves
    by (simp add: closestWindPoint_squared_def tied_samples_def double_integer
        Number_MAX_VALUE_def)
  show "closestWindPoint_squared tied_samples 100 25 = Some (tied_samples ! 1)"
    by (simp add: closestWindPoint_squared_def tied_samples_def double_integer
        Number_MAX_VALUE_def)
qed

lemma old_particle_step:
  "updateWindParticle tied_samples 100 100 screen_unproject old_particle (sconst (1 / 2)) =
     Inr (old_particle\<lparr>x := 50, y := 50, WindParticle.age := 0, WindParticle.maxAge := 75,
            WindParticle.speed := 0.6, WindParticle.direction := 1\<rparr>, sconst (1 / 2))"
  by (simp add: updateWindParticle_def old_particle_def Let_def Math_random_def
      screen_unproject_def tied_samples_lookup_sqrt)
     (simp add: tied_samples_def)

lemma inner_particle_step:
  "layerUpdateParticle 0.0075 unit_bounds tied_samples inner_particle (sconst (1 / 2)) =
     Inr (inner_particle\<lparr>position := (0.5075, 0.5), age := 1,
            color := (255, 0, 0, Fin 196)\<rparr>, sconst (1 / 2))"
  by (simp add: layerUpdateParticle_def inner_particle_def unit_bounds_def Let_def
      fadedAlpha_def js_div_def)

lemma leaving_particle_step:
  "layerUpdateParticle 0.0075 unit_bounds tied_samples leaving_particle (sconst (1 / 2)) =
     Inr (leaving_particle\<lparr>age := 50\<rparr>, sconst (1 / 2))"
  by (simp add: layerUpdateParticle_def leaving_particle_def unit_bounds_def Let_def)

lemma expired_particle_step:
  "layerUpdateParticle 0.0075 unit_bounds tied_samples expired_particle (sconst (1 / 2)) =
     Inr (expired_particle\<lparr>position := (0.5, 0.5), direction := 0, speed := 0.2, age := 0,
            maxAge := 75, size := 9, color := (30, 144, 255, Fin 200)\<rparr>, sconst (1 / 2))"
  by (simp add: layerUpdateParticle_def expired_particle_def unit_bounds_def Let_def
      Math_random_def tied_samples_lookup_squared getWindColor_def)
     (simp add: tied_samples_def)

lemma animateParticles_length:
  "particles \<noteq> [] \<Longrightarrow>
   length (fst (animateParticles map_current canvas particles windData rnd)) = length particles"
  by (cases canvas)
    (auto simp add: animateParticles_def Let_def updateParticles_def Array_map_length
      split: option.splits)

text \<open>
  C1. An advection step returns as many particles as it is given, in each of the three
  variants. \<^verbatim>\<open>updateWindParticles\<close> and the layer's \<^verbatim>\<open>updateParticles\<close> can throw
  (the first when \<^verbatim>\<open>map.unproject\<close> throws, the second on an empty field); whenever
  they return, the size is kept, and they do return when the projection never throws,
  respectively when the field is not empty. \<^verbatim>\<open>updateParticles\<close> of the canvas map
  catches every exception and always returns. A frame of the canvas map
  (\<^verbatim>\<open>animateParticles\<close>) seeds the population only when it is empty: a population that
  is not empty has the same size after the frame.
\<close>

theorem advection_keeps_population_size:
  "(\<forall>ps' rnd'. updateWindParticles particles windData width height unproj rnd = Inr (ps', rnd')
      \<longrightarrow> length ps' = length particles) \<and>
   ((\<forall>point. unproj point \<noteq> None) \<longrightarrow>
      (\<exists>ps' rnd'. updateWindParticles particles windData width height unproj rnd = Inr (ps', rnd'))) \<and>
   length (fst (updateParticles map_current map_particles windData width height rnd)) =
     length map_particles \<and>
   (\<forall>ps' rnd'. WindParticleLayer_updateParticles animate particleSpeed b layer_particles windData rnd =
        Inr (ps', rnd')
      \<longrightarrow> length ps' = length layer_particles) \<and>
   (windData \<noteq> [] \<longrightarrow>
      (\<exists>ps' rnd'. WindParticleLayer_updateParticles animate particleSpeed b layer_particles windData rnd =
        Inr (ps', rnd'))) \<and>
   (map_particles \<noteq> [] \<longrightarrow>
      length (fst (animateParticles map_current canvas map_particles windData rnd)) =
        length map_particles)"
proof -
  have canonical: "length ps' = length particles"
    if "updateWindParticles particles windData width height unproj rnd = Inr (ps', rnd')"
    for ps' rnd'
    using that unfolding updateWindParticles_def by (rule Array_map_throwing_length)
  have canonical_returns:
    "\<exists>ps' rnd'. updateWindParticles particles windData width height unproj rnd = Inr (ps', rnd')"
    if "\<forall>point. unproj point \<noteq> None"
  proof -
    from that have total: "unproj point \<noteq> None" for point
      by blast
    show ?thesis
      unfolding updateWindParticles_def
      by (intro Array_map_throwing_returns updateWindParticle_returns total)
  qed
  have canvas: "length (fst (updateParticles map_current map_particles windData width height rnd)) =
      length map_particles"
    by (simp add: updateParticles_def Array_map_length split: option.splits)
  have layer: "length ps' = length layer_particles"
    if "WindParticleLayer_updateParticles animate particleSpeed b layer_particles windData rnd =
        Inr (ps', rnd')"
    for ps' rnd'
    using that
    by (auto simp add: WindParticleLayer_updateParticles_def Let_def
        dest: Array_map_throwing_length split: if_splits)
  have layer_returns:
    "\<exists>ps' rnd'. WindParticleLayer_updateParticles animate particleSpeed b layer_particles windData rnd =
        Inr (ps', rnd')"
    if "windData \<noteq> []"
    using Array_map_throwing_returns [of "layerUpdateParticle
        (case particleSpeed of None \<Rightarrow> 0.0075 | Some v \<Rightarrow> v) b windData" layer_particles rnd,
        OF layerUpdateParticle_returns [OF that]]
    by (simp add: WindParticleLayer_updateParticles_def Let_def)
  show ?thesis
    using canonical canonical_returns canvas layer layer_returns animateParticles_length
    by blast
qed

theorem advection_keeps_population_size_witness:
  "updateWindParticles [young_particle, old_particle] tied_samples 100 100 screen_unproject
       (sconst (1 / 2)) =
     Inr ([young_particle\<lparr>x := 3, WindParticle.age := 1\<rparr>,
           old_particle\<lparr>x := 50, y := 50, WindParticle.age := 0, WindParticle.maxAge := 75,
             WindParticle.speed := 0.6, WindParticle.direction := 1\<rparr>], sconst (1 / 2)) \<and>
   length [young_particle\<lparr>x := 3, WindParticle.age := 1\<rparr>,
           old_particle\<lparr>x := 50, y := 50, WindParticle.age := 0, WindParticle.maxAge := 75,
             WindParticle.speed := 0.6, WindParticle.direction := 1\<rparr>] =
     length [young_particle, old_particle] \<and>
   (\<forall>point. Some point \<noteq> (None :: (real \<times> real) option)) \<and>
   (\<exists>ps' rnd'. updateWindParticles [young_particle, old_particle] [] 100 100 Some (sconst (1 / 2)) =
      Inr (ps', rnd')) \<and>
   length (fst (updateParticles (Some region_map) [young_map_particle, old_map_particle]
      tied_samples 200 50 (sconst (1 / 2)))) = 2 \<and>
   WindParticleLayer_updateParticles True None unit_bounds
       [inner_particle, leaving_particle, expired_particle] tied_samples (sconst (1 / 2)) =
     Inr ([inner_particle\<lparr>position := (0.5075, 0.5), age := 1, color := (255, 0, 0, Fin 196)\<rparr>,
           leaving_particle\<lparr>age := 50\<rparr>,
           expired_particle\<lparr>position := (0.5, 0.5), direction := 0, speed := 0.2, age := 0,
             maxAge := 75, size := 9, color := (30, 144, 255, Fin 200)\<rparr>], sconst (1 / 2)) \<and>
   tied_samples \<noteq> [] \<and>
   (\<exists>ps' rnd'. WindParticleLayer_updateParticles True None unit_bounds
       [inner_particle, leaving_particle, expired_particle] tied_samples (sconst (1 / 2)) =
     Inr (ps', rnd') \<and> length ps' = 3) \<and>
   [young_map_particle, old_map_particle] \<noteq> [] \<and>
   length (fst (animateParticles (Some region_map) (Some (200, 50))
      [young_map_particle, old_map_particle] tied_samples (sconst (1 / 2)))) = 2"
proof -
  have canonical_run:
    "updateWindParticles [young_particle, old_particle] tied_samples 100 100 screen_unproject
       (sconst (1 / 2)) =
     Inr ([young_particle\<lparr>x := 3, WindParticle.age := 1\<rparr>,
           old_particle\<lparr>x := 50, y := 50, WindParticle.age := 0, WindParticle.maxAge := 75,
             WindParticle.speed := 0.6, WindParticle.direction := 1\<rparr>], sconst (1 / 2))"
    by (simp add: updateWindParticles_def young_particle_step old_particle_step)
  have layer_run:
    "WindParticleLayer_updateParticles True None unit_bounds
       [inner_particle, leaving_particle, expired_particle] tied_samples (sconst (1 / 2)) =
     Inr ([inner_particle\<lparr>position := (0.5075, 0.5), age := 1, color := (255, 0, 0, Fin 196)\<rparr>,
           leaving_particle\<lparr>age := 50\<rparr>,
           expired_particle\<lparr>position := (0.5, 0.5), direction := 0, speed := 0.2, age := 0,
             maxAge := 75, size := 9, color := (30, 144, 255, Fin 200)\<rparr>], sconst (1 / 2))"
    by (simp add: WindParticleLayer_updateParticles_def layerUpdateParticle_def
        inner_particle_def leaving_particle_def expired_particle_def unit_bounds_def Let_def
        fadedAlpha_def js_div_def Math_random_def tied_samples_lookup_squared getWindColor_def)
      (simp add: tied_samples_def)
  have total: "\<forall>point. Some point \<noteq> (None :: (real \<times> real) option)"
    by simp
  have nonempty: "tied_samples \<noteq> []"
    by (simp add: tied_samples_def)
  note canonical = advection_keeps_population_size [where particles = "[young_particle, old_particle]"
      and windData = tied_samples and width = 100 and height = 100
      and unproj = screen_unproject and rnd = "sconst (1 / 2)", THEN conjunct1, rule_format,
      OF canonical_run]
  note returns = advection_keeps_population_size [where particles = "[young_particle, old_particle]"
      and windData = "[]" and width = 100 and height = 100
      and unproj = Some and rnd = "sconst (1 / 2)", THEN conjunct2, THEN conjunct1, THEN mp,
      OF total]
  note canvas = advection_keeps_population_size [where
      map_particles = "[young_map_particle, old_map_particle]" and map_current = "Some region_map"
      and windData = tied_samples and width = 200 and height = 50 and rnd = "sconst (1 / 2)",
      THEN conjunct2, THEN conjunct2, THEN conjunct1]
  note layer = advection_keeps_population_size [where
      layer_particles = "[inner_particle, leaving_particle, expired_particle]"
      and animate = True and particleSpeed = None and b = unit_bounds
      and windData = tied_samples and rnd = "sconst (1 / 2)",
      THEN conjunct2, THEN conjunct2, THEN conjunct2, THEN conjunct1, rule_format, OF layer_run]
  have populated: "[young_map_particle, old_map_particle] \<noteq> []"
    by simp
  note frame = advection_keeps_population_size [where
      map_particles = "[young_map_particle, old_map_particle]" and map_current = "Some region_map"
      and canvas = "Some (200, 50)" and windData = tied_samples and rnd = "sconst (1 / 2)",
      THEN conjunct2, THEN conjunct2, THEN conjunct2, THEN conjunct2, THEN conjunct2, THEN mp,
      OF populated]
  show ?thesis
    using canonical_run canonical returns canvas layer_run layer total nonempty frame
    by simp
qed











lemma spawnLoop_budget:
  "spawnLoop windData width height count m maxAttempts particles attempts rnd = (ps', attempts', r') \<Longrightarrow>
   attempts \<le> attempts' \<and>
   (attempts \<le> maxAttempts \<longrightarrow> attempts' \<le> maxAttempts) \<and>
   (length particles \<le> count \<longrightarrow> length ps' \<le> count) \<and>
   (length ps' < count \<longrightarrow> maxAttempts \<le> attempts') \<and>
   length particles \<le> length ps' \<and>
   length ps' + attempts \<le> length particles + attempts'"
proof (induction "maxAttempts - attempts" arbitrary: particles attempts rnd)
  case 0
  then show ?case
    by (subst (asm) spawnLoop.simps) auto
next
  case (Suc k)
  then have k: "k = maxAttempts - (attempts + 1)" and budget: "attempts < maxAttempts"
    by simp_all
  note again = Suc.hyps(1) [OF k]
  show ?case
  proof (cases "length particles < count")
    case False
    then show ?thesis
      using Suc.prems by (subst (asm) spawnLoop.simps) auto
  next
    case True
    let ?newX = "shd rnd * width" and ?newY = "shd (stl rnd) * height"
    have skip: ?thesis
      if "spawnLoop windData width height count m maxAttempts particles (attempts + 1) r =
          (ps', attempts', r')" for r
      using again [OF that] budget by auto
    have push: ?thesis
      if "spawnLoop windData width height count m maxAttempts (particles @ [p]) (attempts + 1) r =
          (ps', attempts', r')" for p r
      using again [OF that] budget True by auto
    let ?rnd = "stl (stl rnd)"
    show ?thesis
    proof (cases "unproject m (?newX, ?newY)")
      case None
      then have "spawnLoop windData width height count m maxAttempts particles (attempts + 1) ?rnd =
          (ps', attempts', r')"
        using Suc.prems True budget
        by (subst (asm) spawnLoop.simps) (simp add: Math_random_def Let_def)
      then show ?thesis
        by (rule skip)
    next
      case (Some lngLat)
      show ?thesis
      proof (cases "isInSoutheastAsia (fst lngLat) (snd lngLat)")
        case False
        then have "spawnLoop windData width height count m maxAttempts particles (attempts + 1)
            ?rnd = (ps', attempts', r')"
          using Suc.prems True budget Some
          by (subst (asm) spawnLoop.simps) (simp add: Math_random_def Let_def)
        then show ?thesis
          by (rule skip)
      next
        case inside: True
        show ?thesis
        proof (cases "closestWindPoint_squared windData (fst lngLat) (snd lngLat)")
          case None
          then have "spawnLoop windData width height count m maxAttempts particles (attempts + 1)
              (stl (stl ?rnd)) = (ps', attempts', r')"
            using Suc.prems True budget Some inside
            by (subst (asm) spawnLoop.simps) (simp add: Math_random_def Let_def)
          then show ?thesis
            by (rule skip)
        next
          case found: (Some c)
          have "\<exists>p. spawnLoop windData width height count m maxAttempts (particles @ [p])
              (attempts + 1) (stl (stl ?rnd)) = (ps', attempts', r')"
            using Suc.prems True budget Some inside found
            by (subst (asm) spawnLoop.simps) (auto simp add: Math_random_def Let_def)
          then show ?thesis
            using push by blast
        qed
      qed
    qed
  qed
qed

text \<open>
  C4. The loop of \<^verbatim>\<open>createWindParticles\<close> is a total function: it ends. Started
  as \<^verbatim>\<open>createWindParticles\<close> starts it (no particle, no attempt, a budget of
  \<open>count \<sqdot> 3\<close>), it makes at most \<open>count \<sqdot> 3\<close> attempts, one for each round, accepts at
  most one particle for each attempt and at most \<open>count\<close> particles, and when it returns
  fewer than \<open>count\<close> particles the budget is used up. \<^verbatim>\<open>createWindParticles\<close>
  returns the particles of the loop, or none without a map or with an empty field: never
  more than \<open>count\<close>.
\<close>

theorem createWindParticles_attempt_budget:
  "(\<forall>ps attempts r'.
      spawnLoop windData width height count m (count * 3) [] 0 rnd = (ps, attempts, r') \<longrightarrow>
        attempts \<le> count * 3 \<and> length ps \<le> count \<and> length ps \<le> attempts \<and>
        (length ps < count \<longrightarrow> attempts = count * 3)) \<and>
   length (fst (createWindParticles map_current windData width height count rnd)) \<le> count \<and>
   (windData \<noteq> [] \<longrightarrow>
      fst (createWindParticles (Some m) windData width height count rnd) =
      fst (spawnLoop windData width height count m (count * 3) [] 0 rnd))"
proof -
  have loop: "attempts \<le> count * 3 \<and> length ps \<le> count \<and> length ps \<le> attempts \<and>
      (length ps < count \<longrightarrow> attempts = count * 3)"
    if "spawnLoop windData width height count m (count * 3) [] 0 rnd = (ps, attempts, r')"
    for ps attempts r' m
    using spawnLoop_budget [OF that] by auto
  have "length (fst (createWindParticles map_current windData width height count rnd)) \<le> count"
  proof (cases map_current)
    case None
    then show ?thesis by (simp add: createWindParticles_def)
  next
    case (Some m')
    obtain ps attempts r' where
      run: "spawnLoop windData width height count m' (count * 3) [] 0 rnd = (ps, attempts, r')"
      by (cases "spawnLoop windData width height count m' (count * 3) [] 0 rnd") blast
    then show ?thesis
      using loop [OF run] Some by (simp add: createWindParticles_def Let_def)
  qed
  moreover have "fst (createWindParticles (Some m) windData width height count rnd) =
      fst (spawnLoop windData width height count m (count * 3) [] 0 rnd)" if "windData \<noteq> []"
    using that by (simp add: createWindParticles_def Let_def split_beta)
  ultimately show ?thesis
    using loop by blast
qed

lemma spawnLoop_elsewhere:
  "spawnLoop tied_samples 200 50 2 elsewhere_map 6 [] 0 (sconst (1 / 2)) =
     ([], 6, sconst (1 / 2))"
  by (simp add: spawnLoop.simps elsewhere_map_def Math_random_def Let_def isInSoutheastAsia_def
      SOUTHEAST_ASIA_BOUNDS_def)

lemma spawnLoop_region:
  "spawnLoop tied_samples 200 50 2 region_map 6 [] 0 (sconst (1 / 2)) =
     ([old_map_particle\<lparr>x := 100, y := 25, WindParticle.age := 45, WindParticle.maxAge := 90,
         WindParticle.speed := 0.6, WindParticle.direction := 1, lng := 100, lat := 25\<rparr>,
       old_map_particle\<lparr>x := 100, y := 25, WindParticle.age := 45, WindParticle.maxAge := 90,
         WindParticle.speed := 0.6, WindParticle.direction := 1, lng := 100, lat := 25\<rparr>],
      2, sconst (1 / 2))"
  by (simp add: spawnLoop.simps region_map_def screen_unproject_def Math_random_def Let_def
      isInSoutheastAsia_def SOUTHEAST_ASIA_BOUNDS_def tied_samples_lookup_squared
      old_map_particle_def)
     (simp add: tied_samples_def)

theorem createWindParticles_attempt_budget_witness:
  "spawnLoop tied_samples 200 50 2 elsewhere_map 6 [] 0 (sconst (1 / 2)) =
     ([], 6, sconst (1 / 2)) \<and>
   length ([] :: MapParticle list) < 2 \<and> (6::nat) = 2 * 3 \<and>
   fst (createWindParticles (Some elsewhere_map) tied_samples 200 50 2 (sconst (1 / 2))) = [] \<and>
   fst (snd (spawnLoop tied_samples 200 50 2 region_map 6 [] 0 (sconst (1 / 2)))) = 2 \<and>
   length (fst (createWindParticles (Some region_map) tied_samples 200 50 2 (sconst (1 / 2)))) = 2 \<and>
   tied_samples \<noteq> []"
proof -
  have nonempty: "tied_samples \<noteq> []"
    by (simp add: tied_samples_def)
  note elsewhere = createWindParticles_attempt_budget [where windData = tied_samples
      and width = 200 and height = 50 and count = 2 and m = elsewhere_map
      and rnd = "sconst (1 / 2)"]
  note region = createWindParticles_attempt_budget [where windData = tied_samples
      and width = 200 and height = 50 and count = 2 and m = region_map
      and rnd = "sconst (1 / 2)"]
  have "(6::nat) = 2 * 3"
    using elsewhere [THEN conjunct1, rule_format, of "[]" 6 "sconst (1 / 2)"]
    by (simp add: spawnLoop_elsewhere)
  moreover have "fst (createWindParticles (Some elsewhere_map) tied_samples 200 50 2
      (sconst (1 / 2))) = []"
    using elsewhere [THEN conjunct2, THEN conjunct2, THEN mp, OF nonempty]
    by (simp add: spawnLoop_elsewhere)
  moreover have "length (fst (createWindParticles (Some region_map) tied_samples 200 50 2
      (sconst (1 / 2)))) = 2"
    using region [THEN conjunct2, THEN conjunct2, THEN mp, OF nonempty]
    by (simp add: spawnLoop_region)
  ultimately show ?thesis
    using nonempty spawnLoop_elsewhere spawnLoop_region by simp
qed

end
